theory Spec2Isabelle
  imports Main "HOL-Library.Word"
begin

section \<open>Python values and exceptions\<close>

text \<open>
  The module yappcap.pyx is a Cython wrapper over libpcap. Python exceptions are values:
  a class and the constructor's arguments. A method that can raise returns
  \<open>pyexc + 'a\<close>, with \<open>Inl\<close> for the raised exception.

  \<open>UserError\<close> stands for any exception class of the caller's own (what a callback
  raises). \<open>Segfault\<close> is not a Python exception: it marks the process dying on a
  NULL pointer the source does not guard against (a NULL \<open>pcap_t *\<close> or
  \<open>pcap_dumper_t *\<close> handed to libpcap, a NULL \<open>PyObject *\<close> cast to an object).
  Nothing runs after it.
\<close>

datatype exc_class =
    PcapError | PcapErrorBreak | PcapErrorNotActivated | PcapErrorActivated
  | PcapErrorNoSuchDevice | PcapErrorRfmonNotSup | PcapErrorNotRfmon
  | PcapErrorPermDenied | PcapErrorIfaceNotUp | PcapWarning | PcapWarningPromiscNotSup
  | PcapTimeout | StopIteration | TypeError | OverflowError | UserError string | Segfault

datatype pyexc = Exc exc_class "string list"

datatype pyval = PyNone | PyInt int | PyBool bool | PyStr string | PyExcObj pyexc

type_synonym bytes = "8 word list"

text \<open>
  A Python integer handed to a C function that takes an \<open>int\<close> is converted first;
  outside the range of a 32-bit \<open>int\<close> the conversion raises \<open>OverflowError\<close> and
  the C function is not called.
\<close>

definition as_c_int :: "int \<Rightarrow> pyexc + int" where
  "as_c_int v =
     (if - (2 ^ 31) \<le> v \<and> v < 2 ^ 31 then Inr v
      else Inl (Exc OverflowError [''value too large to convert to int'']))"

section \<open>Build flags and native status codes\<close>

text \<open>
  definitions.pxi, included by the first line of the module, is not among the sources.
  It fixes the compile-time flags the \<open>IF\<close> blocks test; they are parameters here.
\<close>

record definitions =
  PCAP_V0 :: bool
  HAVE_AF_PACKET :: bool
  HAVE_AF_LINK :: bool

text \<open>
  Modelled from the spec: pcap.pxd, which declares libpcap's status codes to Cython, is
  not among the sources. The spec speaks of native status codes translated into the
  failure kinds; the numbers are those of libpcap's pcap.h.
\<close>

definition PCAP_ERROR :: int where "PCAP_ERROR = -1"
definition PCAP_ERROR_BREAK :: int where "PCAP_ERROR_BREAK = -2"
definition PCAP_ERROR_NOT_ACTIVATED :: int where "PCAP_ERROR_NOT_ACTIVATED = -3"
definition PCAP_ERROR_ACTIVATED :: int where "PCAP_ERROR_ACTIVATED = -4"
definition PCAP_ERROR_NO_SUCH_DEVICE :: int where "PCAP_ERROR_NO_SUCH_DEVICE = -5"
definition PCAP_ERROR_RFMON_NOTSUP :: int where "PCAP_ERROR_RFMON_NOTSUP = -6"
definition PCAP_ERROR_NOT_RFMON :: int where "PCAP_ERROR_NOT_RFMON = -7"
definition PCAP_ERROR_PERM_DENIED :: int where "PCAP_ERROR_PERM_DENIED = -8"
definition PCAP_ERROR_IFACE_NOT_UP :: int where "PCAP_ERROR_IFACE_NOT_UP = -9"
definition PCAP_WARNING :: int where "PCAP_WARNING = 1"
definition PCAP_WARNING_PROMISC_NOTSUP :: int where "PCAP_WARNING_PROMISC_NOTSUP = 2"
definition PCAP_IF_LOOPBACK :: "32 word" where "PCAP_IF_LOOPBACK = 1"

definition PCAP_LOOP_DISPATCH :: int where "PCAP_LOOP_DISPATCH = 0"
definition PCAP_LOOP_LOOP :: int where "PCAP_LOOP_LOOP = 1"

section \<open>Packet value\<close>

text \<open>
  \<open>struct pcap_pkthdr\<close> as libpcap hands it over: a timestamp and two unsigned 32-bit
  lengths. \<open>PcapPacket_factory\<close> copies the header and slices \<open>caplen\<close> bytes off the
  native buffer (\<open>cast_data[:pkt_header.caplen]\<close>); the buffer is the byte list the
  engine delivered.
\<close>

record timeval =
  tv_sec :: int
  tv_usec :: int

record pcap_pkthdr =
  ts :: timeval
  caplen :: "32 word"
  len :: "32 word"

record PcapPacket =
  pkthdr :: pcap_pkthdr
  data :: bytes

definition PcapPacket_factory :: "pcap_pkthdr \<Rightarrow> bytes \<Rightarrow> PcapPacket" where
  "PcapPacket_factory pkt_header cast_data =
     \<lparr>pkthdr = pkt_header, data = take (unat (caplen pkt_header)) cast_data\<rparr>"

definition PcapPacket_caplen :: "PcapPacket \<Rightarrow> int" where
  "PcapPacket_caplen self = uint (caplen (pkthdr self))"

definition PcapPacket_wirelen :: "PcapPacket \<Rightarrow> int" where
  "PcapPacket_wirelen self = uint (len (pkthdr self))"

definition PcapPacket_data :: "PcapPacket \<Rightarrow> bytes" where
  "PcapPacket_data self = data self"

section \<open>Interface and address snapshot\<close>

text \<open>
  The address families, the sockaddr sizes and \<open>getnameinfo\<close> belong to the platform
  (system headers and the resolver), so they are parameters. \<open>getnameinfo\<close> gives its
  status and what it wrote to the buffer.
\<close>

record sockaddr =
  sa_family :: int
  sa_data :: bytes

record platform =
  AF_INET :: int
  AF_INET6 :: int
  AF_PACKET :: int
  AF_LINK :: int
  sizeof_sockaddr_in :: nat
  sizeof_sockaddr_in6 :: nat
  sizeof_sockaddr_ll :: nat
  sizeof_sockaddr_dl :: nat
  getnameinfo :: "sockaddr \<Rightarrow> int \<Rightarrow> int \<times> string"

definition get_sock_len :: "definitions \<Rightarrow> platform \<Rightarrow> sockaddr \<Rightarrow> int" where
  "get_sock_len d pf addr =
     (if sa_family addr = AF_INET pf then int (sizeof_sockaddr_in pf)
      else if sa_family addr = AF_INET6 pf then int (sizeof_sockaddr_in6 pf)
      else if HAVE_AF_PACKET d \<and> sa_family addr = AF_PACKET pf then int (sizeof_sockaddr_ll pf)
      else if HAVE_AF_LINK d \<and> sa_family addr = AF_LINK pf then int (sizeof_sockaddr_dl pf)
      else -1)"

type_synonym pydict = "string \<rightharpoonup> pyval"

definition parse_addr :: "definitions \<Rightarrow> platform \<Rightarrow> sockaddr option \<Rightarrow> pydict option" where
  "parse_addr d pf addr =
     (case addr of
        None \<Rightarrow> None
      | Some a \<Rightarrow>
          (let socklen = get_sock_len d pf a in
           if socklen < 0 then Some [''family'' \<mapsto> PyInt (sa_family a)]
           else
             (let (res, buf) = getnameinfo pf a socklen in
              if res \<noteq> 0 then Some [''family'' \<mapsto> PyInt (sa_family a)]
              else Some [''family'' \<mapsto> PyInt (sa_family a), ''address'' \<mapsto> PyStr buf])))"

record pcap_addr_t =
  addr :: "sockaddr option"
  netmask :: "sockaddr option"
  broadaddr :: "sockaddr option"
  dstaddr :: "sockaddr option"

record PcapAddress =
  address_addr :: "pydict option"
  address_netmask :: "pydict option"
  address_broadaddr :: "pydict option"
  address_dstaddr :: "pydict option"

definition PcapAddress_factory :: "definitions \<Rightarrow> platform \<Rightarrow> pcap_addr_t \<Rightarrow> PcapAddress" where
  "PcapAddress_factory d pf address =
     \<lparr>address_addr = parse_addr d pf (addr address),
      address_netmask = parse_addr d pf (netmask address),
      address_broadaddr = parse_addr d pf (broadaddr address),
      address_dstaddr = parse_addr d pf (dstaddr address)\<rparr>"

text \<open>
  The four read-only properties of \<open>PcapAddress\<close> (\<open>address\<close>, \<open>netmask\<close>,
  \<open>broadcast\<close>, \<open>dstaddr\<close>), selected by role, and the native pointer each role is
  parsed from.
\<close>

datatype role = Address | Netmask | Broadcast | Destination

fun role_get :: "role \<Rightarrow> PcapAddress \<Rightarrow> pydict option" where
  "role_get Address self = address_addr self"
| "role_get Netmask self = address_netmask self"
| "role_get Broadcast self = address_broadaddr self"
| "role_get Destination self = address_dstaddr self"

fun role_ptr :: "role \<Rightarrow> pcap_addr_t \<Rightarrow> sockaddr option" where
  "role_ptr Address address = addr address"
| "role_ptr Netmask address = netmask address"
| "role_ptr Broadcast address = broadaddr address"
| "role_ptr Destination address = dstaddr address"

text \<open>
  \<open>pcap_if_t\<close>: the \<open>next\<close>-linked chains of interfaces and of addresses are lists, in
  chain order.
\<close>

record pcap_if_t =
  if_name :: "string option"
  if_description :: "string option"
  if_flags :: "32 word"
  if_addresses :: "pcap_addr_t list"

record PcapInterface =
  interface_addresses :: "PcapAddress list"
  interface_name :: "string option"
  interface_description :: "string option"
  interface_loopback :: bool

definition PcapInterface_factory :: "definitions \<Rightarrow> platform \<Rightarrow> pcap_if_t \<Rightarrow> PcapInterface" where
  "PcapInterface_factory d pf interface =
     \<lparr>interface_addresses = map (PcapAddress_factory d pf) (if_addresses interface),
      interface_name = if_name interface,
      interface_description = if_description interface,
      interface_loopback = (and (if_flags interface) PCAP_IF_LOOPBACK \<noteq> 0)\<rparr>"

text \<open>
  \<open>findalldevs\<close>: the engine's enumeration is its status, the interface chain and the
  error buffer.
\<close>

definition findalldevs ::
  "definitions \<Rightarrow> platform \<Rightarrow> int \<times> pcap_if_t list \<times> string \<Rightarrow> pyexc + PcapInterface list" where
  "findalldevs d pf native =
     (let (res, interfaces, errbuf) = native in
      if res < 0 then Inl (Exc PcapError [errbuf])
      else Inr (map (PcapInterface_factory d pf) interfaces))"

section \<open>The native capture handle\<close>

text \<open>
  Modelled from the spec: libpcap itself is an external collaborator, so only its
  contract at the boundary is modelled (spec section 6 and the contracts section 4 relies
  on): a handle carries an activation flag, the break flag \<open>request_break\<close> sets, the
  configuration, the attached filter program, the last error text, and what its source
  will yield on the coming reads. What depends on the device or the file (whether
  activation succeeds, whether monitor mode can be set, whether a filter compiles or
  attaches) is a field of the handle, named after the operation that reports it.

  A compiled filter program is the predicate it computes on a packet.
\<close>

type_synonym bpf_program = "pcap_pkthdr \<Rightarrow> bytes \<Rightarrow> bool"

datatype event = EvPacket pcap_pkthdr bytes | EvTimeout | EvError string

record pcap_t =
  activated :: bool
  is_savefile :: bool
  break_loop :: bool
  snapshot :: int
  opt_promisc :: bool
  opt_timeout :: int
  opt_rfmon :: bool
  opt_buffer_size :: int
  fcode :: "bpf_program option"
  errbuf :: string
  pending :: "event list"
  fd :: int
  nonblock :: int
  linktype_name :: string
  swapped :: int
  version_major :: int
  version_minor :: int
  activate_op :: int
  can_set_rfmon_op :: int
  compile_op :: "string \<Rightarrow> bpf_program option"
  setfilter_op :: "bpf_program \<Rightarrow> int"
  setnonblock_op :: "bool \<Rightarrow> int"
  dump_open_op :: "string \<Rightarrow> bool"

text \<open>
  Modelled from the spec: \<open>set_snaplen/set_promisc/set_timeout/set_rfmon/
  set_buffer_size(handle, value) \<rightarrow> status\<close>, legal only while activation is false: each
  refuses an activated handle with the already-activated status and stores the value
  otherwise.
\<close>

definition pcap_set_snaplen :: "pcap_t \<Rightarrow> int \<Rightarrow> int \<times> pcap_t" where
  "pcap_set_snaplen p v =
     (if activated p then (PCAP_ERROR_ACTIVATED, p) else (0, p\<lparr>snapshot := v\<rparr>))"

definition pcap_set_promisc :: "pcap_t \<Rightarrow> bool \<Rightarrow> int \<times> pcap_t" where
  "pcap_set_promisc p v =
     (if activated p then (PCAP_ERROR_ACTIVATED, p) else (0, p\<lparr>opt_promisc := v\<rparr>))"

definition pcap_set_timeout :: "pcap_t \<Rightarrow> int \<Rightarrow> int \<times> pcap_t" where
  "pcap_set_timeout p v =
     (if activated p then (PCAP_ERROR_ACTIVATED, p) else (0, p\<lparr>opt_timeout := v\<rparr>))"

definition pcap_set_rfmon :: "pcap_t \<Rightarrow> bool \<Rightarrow> int \<times> pcap_t" where
  "pcap_set_rfmon p v =
     (if activated p then (PCAP_ERROR_ACTIVATED, p) else (0, p\<lparr>opt_rfmon := v\<rparr>))"

definition pcap_set_buffer_size :: "pcap_t \<Rightarrow> int \<Rightarrow> int \<times> pcap_t" where
  "pcap_set_buffer_size p v =
     (if activated p then (PCAP_ERROR_ACTIVATED, p) else (0, p\<lparr>opt_buffer_size := v\<rparr>))"

text \<open>
  The probe for monitor mode (\<open>pcap_can_set_rfmon\<close>) is not part of the boundary the
  spec lists. Its answer is a parameter: what the handle's device reports.
\<close>

definition pcap_can_set_rfmon :: "pcap_t \<Rightarrow> int" where
  "pcap_can_set_rfmon p = can_set_rfmon_op p"

text \<open>
  Modelled from the spec: \<open>activate(handle) \<rightarrow> status\<close>. Already active is an error;
  otherwise the device reports a status, and a non-negative one (success, or a warning:
  non-fatal, activation nonetheless proceeds) leaves the handle activated.
  \<open>last_error_text\<close> reads the error buffer; \<open>request_break\<close> sets the break flag.
\<close>

definition pcap_activate :: "pcap_t \<Rightarrow> int \<times> pcap_t" where
  "pcap_activate p =
     (if activated p then (PCAP_ERROR_ACTIVATED, p)
      else if 0 \<le> activate_op p then (activate_op p, p\<lparr>activated := True\<rparr>)
      else (activate_op p, p))"

definition pcap_geterr :: "pcap_t \<Rightarrow> string" where
  "pcap_geterr p = errbuf p"

definition pcap_breakloop :: "pcap_t \<Rightarrow> pcap_t" where
  "pcap_breakloop p = p\<lparr>break_loop := True\<rparr>"

definition passes :: "bpf_program option \<Rightarrow> pcap_pkthdr \<Rightarrow> bytes \<Rightarrow> bool" where
  "passes fc h d = (case fc of None \<Rightarrow> True | Some f \<Rightarrow> f h d)"

fun filtered_out :: "bpf_program option \<Rightarrow> event \<Rightarrow> bool" where
  "filtered_out fc (EvPacket h d) = (\<not> passes fc h d)"
| "filtered_out fc EvTimeout = False"
| "filtered_out fc (EvError m) = False"

text \<open>
  Modelled from the spec: \<open>read_one(handle) \<rightarrow> (header, data) | status\<close>. The status is
  1 with a packet, 0 when the read timed out, -1 on an error, -2 at the end of a savefile.
  Packets the attached filter rejects are never surfaced. A live source with nothing left
  stays silent, so the read times out.
\<close>

definition pcap_next_ex :: "pcap_t \<Rightarrow> int \<times> (pcap_pkthdr \<times> bytes) option \<times> pcap_t" where
  "pcap_next_ex p =
     (if \<not> activated p then (PCAP_ERROR_NOT_ACTIVATED, None, p)
      else
        (case dropWhile (filtered_out (fcode p)) (pending p) of
           [] \<Rightarrow> (if is_savefile p then -2 else 0, None, p\<lparr>pending := []\<rparr>)
         | EvPacket h d # rest \<Rightarrow> (1, Some (h, d), p\<lparr>pending := rest\<rparr>)
         | EvTimeout # rest \<Rightarrow> (0, None, p\<lparr>pending := rest\<rparr>)
         | EvError m # rest \<Rightarrow> (-1, None, p\<lparr>pending := rest, errbuf := m\<rparr>)))"

text \<open>
  Modelled from the spec: \<open>compile_filter(handle, expr, optimize, netmask) \<rightarrow> program |
  status\<close> and \<open>attach_filter(handle, program) \<rightarrow> status\<close>. Both need an activated
  handle; a program that attaches becomes the handle's filter, one that does not leaves
  the handle as it was.
\<close>

definition pcap_compile :: "pcap_t \<Rightarrow> string \<Rightarrow> int \<times> bpf_program option" where
  "pcap_compile p str =
     (if \<not> activated p then (PCAP_ERROR_NOT_ACTIVATED, None)
      else (case compile_op p str of None \<Rightarrow> (-1, None) | Some prog \<Rightarrow> (0, Some prog)))"

definition pcap_setfilter :: "pcap_t \<Rightarrow> bpf_program \<Rightarrow> int \<times> pcap_t" where
  "pcap_setfilter p fp =
     (if \<not> activated p then (PCAP_ERROR_NOT_ACTIVATED, p)
      else if setfilter_op p fp = 0 then (0, p\<lparr>fcode := Some fp\<rparr>)
      else (setfilter_op p fp, p))"

text \<open>
  Modelled from the spec: the read-only queries (file descriptor, blocking mode). A
  handle has no descriptor before it is activated.
\<close>

definition pcap_fileno :: "pcap_t \<Rightarrow> int" where
  "pcap_fileno p = (if activated p then fd p else -1)"

definition pcap_getnonblock :: "pcap_t \<Rightarrow> int" where
  "pcap_getnonblock p = nonblock p"

definition pcap_setnonblock :: "pcap_t \<Rightarrow> bool \<Rightarrow> int \<times> pcap_t" where
  "pcap_setnonblock p nb =
     (if \<not> activated p then (PCAP_ERROR_NOT_ACTIVATED, p)
      else if setnonblock_op p nb = 0 then (0, p\<lparr>nonblock := (if nb then 1 else 0)\<rparr>)
      else (setnonblock_op p nb, p))"

text \<open>
  Modelled from the spec: \<open>create/open(target, options) \<rightarrow> handle | error\<close>. Opening
  depends on the host (which devices and files exist), so what the entry points find is a
  parameter: the error text or a fresh handle. A created handle is not yet activated; an
  opened one (live or savefile) is. The host also fixes what the interpreter raises for
  \<open>raise sys.exc_info()\<close> while an exception is pending: the statement raises whatever
  \<open>sys.exc_info()\<close> holds at that moment.
\<close>

record host =
  create_op :: "string \<Rightarrow> string + pcap_t"
  open_live_op :: "string \<Rightarrow> string + pcap_t"
  open_offline_op :: "string \<Rightarrow> string + pcap_t"
  exc_info_raise :: "pyexc \<Rightarrow> pyexc"

definition pcap_create :: "host \<Rightarrow> string \<Rightarrow> string + pcap_t" where
  "pcap_create hst source =
     (case create_op hst source of
        Inl e \<Rightarrow> Inl e
      | Inr p \<Rightarrow> Inr (p\<lparr>activated := False, is_savefile := False, break_loop := False\<rparr>))"

definition pcap_open_live :: "host \<Rightarrow> string \<Rightarrow> int \<Rightarrow> bool \<Rightarrow> int \<Rightarrow> string + pcap_t" where
  "pcap_open_live hst source snaplen promisc to_ms =
     (case open_live_op hst source of
        Inl e \<Rightarrow> Inl e
      | Inr p \<Rightarrow> Inr (p\<lparr>activated := True, is_savefile := False, break_loop := False,
                         snapshot := snaplen, opt_promisc := promisc, opt_timeout := to_ms\<rparr>))"

definition pcap_open_offline :: "host \<Rightarrow> string \<Rightarrow> string + pcap_t" where
  "pcap_open_offline hst fname =
     (case open_offline_op hst fname of
        Inl e \<Rightarrow> Inl e
      | Inr p \<Rightarrow> Inr (p\<lparr>activated := True, is_savefile := True, break_loop := False\<rparr>))"

text \<open>
  Modelled from the spec: \<open>open_dump(handle, path) \<rightarrow> dump_handle | status\<close> and
  \<open>write_dump(dump_handle, header, data)\<close>. A dump handle is the sequence of records
  written to the savefile so far; opening one needs an activated handle.
\<close>

type_synonym pcap_dumper_t = "(pcap_pkthdr \<times> bytes) list"

definition pcap_dump_open :: "pcap_t \<Rightarrow> string \<Rightarrow> pcap_dumper_t option" where
  "pcap_dump_open p fname = (if activated p \<and> dump_open_op p fname then Some [] else None)"

definition pcap_dump :: "pcap_dumper_t \<Rightarrow> pcap_pkthdr \<Rightarrow> bytes \<Rightarrow> pcap_dumper_t" where
  "pcap_dump dm h sp = dm @ [(h, sp)]"

section \<open>The session classes\<close>

text \<open>
  The classes are records; \<open>PcapLive\<close> and \<open>PcapOffline\<close> extend \<open>Pcap\<close> as the
  subclasses do, so a method of \<open>Pcap\<close> works on both. A \<open>cdef\<close> attribute without a C
  type starts as \<open>None\<close>, a pointer as NULL, a \<open>bool\<close> as False. The session owns its
  native handle, so the handle is a field (\<open>None\<close> is the NULL pointer).
\<close>

record PcapDumper =
  dumper_handle :: pcap_dumper_t

record BpfProgram =
  bpf :: bpf_program
  filterstring :: "string option"

record Pcap =
  self_pcap :: "pcap_t option"
  self_dumper :: "PcapDumper option"
  self_filter :: "BpfProgram option"
  self_autosave :: "string option"
  self_activated :: bool

record PcapLive = Pcap +
  self_snaplen :: "int option"
  self_promisc :: "bool option"
  self_rfmon :: "bool option"
  self_timeout :: "int option"
  self_buffer_size :: "int option"
  self_interface :: "string option"

record PcapOffline = Pcap +
  self_filename :: "string option"

text \<open>
  The interpreter state the module reads: the pending-exception indicator
  (\<open>PyErr_Occurred\<close>) and, for stating what the callback was given, the packets
  delivered to it so far.
\<close>

record interp =
  curexc :: "pyexc option"
  calls :: "PcapPacket list"

type_synonym 'a world = "'a Pcap_scheme \<times> interp"

text \<open>
  A caller's callback: from the packets it was given before and the packet it is given
  now, whether it raises and whether it calls \<open>breakloop()\<close> on the session (the one
  session method a callback may use while the loop runs). The extra \<open>args\<close> and
  \<open>kwargs\<close> are passed through unchanged, so they are part of the function.
\<close>

record cb_outcome =
  raised :: "pyexc option"
  called_breakloop :: bool

type_synonym callback = "PcapPacket list \<Rightarrow> PcapPacket \<Rightarrow> cb_outcome"

definition NotActivated :: pyexc where
  "NotActivated = Exc PcapErrorNotActivated []"

definition segfault :: pyexc where
  "segfault = Exc Segfault []"

text \<open>
  \<open>PcapDumper.__init__\<close>. When \<open>pcap_dump_open\<close> fails it raises \<open>PcapError\<close>; the
  object that was being constructed is released at once, and its \<open>__dealloc__\<close> hands
  the NULL dump handle to \<open>pcap_dump_close\<close> without a check, so the process dies
  before the exception reaches the caller.
\<close>

definition PcapDumper_init :: "'a Pcap_scheme \<Rightarrow> string \<Rightarrow> pyexc + PcapDumper" where
  "PcapDumper_init pcap filename =
     (case self_pcap pcap of
        None \<Rightarrow> Inl segfault
      | Some p \<Rightarrow>
          (case pcap_dump_open p filename of
             None \<Rightarrow> Inl segfault
           | Some dm \<Rightarrow> Inr \<lparr>dumper_handle = dm\<rparr>))"

definition PcapDumper_dump :: "PcapDumper \<Rightarrow> PcapPacket \<Rightarrow> PcapDumper" where
  "PcapDumper_dump self pkt =
     self\<lparr>dumper_handle := pcap_dump (dumper_handle self) (pkthdr pkt) (PcapPacket_data pkt)\<rparr>"

text \<open>\<open>if self.__dumper: self.__dumper.dump(pkt)\<close>\<close>

definition dump_if_attached :: "PcapPacket \<Rightarrow> 'a Pcap_scheme \<Rightarrow> 'a Pcap_scheme" where
  "dump_if_attached pkt self =
     (case self_dumper self of
        None \<Rightarrow> self
      | Some dm \<Rightarrow> self\<lparr>self_dumper := Some (PcapDumper_dump dm pkt)\<rparr>)"

text \<open>
  \<open>BpfProgram.__init__\<close>. The \<open>__bpf\<close> struct of a new object is zeroed; a program
  without instructions lets every packet pass.
\<close>

definition BpfProgram_init :: "definitions \<Rightarrow> 'a Pcap_scheme \<Rightarrow> string \<Rightarrow> pyexc + BpfProgram" where
  "BpfProgram_init d pcap fs =
     (if \<not> self_activated pcap then Inl NotActivated
      else
        (case self_pcap pcap of
           None \<Rightarrow> Inl segfault
         | Some p \<Rightarrow>
             (let (res, prog) = pcap_compile p fs in
              if res = -1 then Inl (Exc PcapError [pcap_geterr p])
              else if \<not> PCAP_V0 d \<and> res = PCAP_ERROR_NOT_ACTIVATED then Inl NotActivated
              else Inr \<lparr>bpf = (case prog of None \<Rightarrow> (\<lambda>h sp. True) | Some f \<Rightarrow> f),
                        filterstring = Some fs\<rparr>)))"

subsection \<open>Reading one packet\<close>

definition Pcap_next ::
  "definitions \<Rightarrow> 'a Pcap_scheme \<Rightarrow> (pyexc + PcapPacket) \<times> 'a Pcap_scheme" where
  "Pcap_next d self =
     (if \<not> self_activated self then (Inl NotActivated, self)
      else
        (case self_pcap self of
           None \<Rightarrow> (Inl segfault, self)
         | Some p \<Rightarrow>
             (let (res, got, p') = pcap_next_ex p;
                  self1 = self\<lparr>self_pcap := Some p'\<rparr>
              in
              if res = 0 then (Inl (Exc PcapTimeout []), self1)
              else if res = -1 then (Inl (Exc PcapError [pcap_geterr p']), self1)
              else if res = -2 then (Inl (Exc StopIteration []), self1)
              else if \<not> PCAP_V0 d \<and> res = PCAP_ERROR_NOT_ACTIVATED then (Inl NotActivated, self1)
              else if res = 1 then
                (case got of
                   None \<Rightarrow> (Inl segfault, self1)
                 | Some (hdr, sp) \<Rightarrow>
                     (let pkt = PcapPacket_factory hdr sp
                      in (Inr pkt, dump_if_attached pkt self1)))
              else (Inl (Exc PcapError [''Unknown error'']), self1))))"

subsection \<open>The callback bridge\<close>

text \<open>
  \<open>breakloop\<close> returns (it does not raise) a \<open>PcapErrorNotActivated\<close> object on a
  session that is not activated.
\<close>

definition breakloop :: "'a Pcap_scheme \<Rightarrow> (pyexc + pyval) \<times> 'a Pcap_scheme" where
  "breakloop self =
     (if \<not> self_activated self then (Inr (PyExcObj NotActivated), self)
      else
        (case self_pcap self of
           None \<Rightarrow> (Inl segfault, self)
         | Some p \<Rightarrow> (Inr PyNone, self\<lparr>self_pcap := Some (pcap_breakloop p)\<rparr>)))"

text \<open>
  \<open>__pcap_callback_fn\<close>, declared \<open>except *\<close>: an exception raised inside it becomes
  the pending exception and the function returns at once. A call that returns leaves the
  pending exception as it was.
\<close>

definition pcap_callback_fn ::
  "callback option \<Rightarrow> pcap_pkthdr \<Rightarrow> bytes \<Rightarrow> 'a world \<Rightarrow> 'a world" where
  "pcap_callback_fn callback hdr pktdata w =
     (let (pcap, i) = w;
          pkt = PcapPacket_factory hdr pktdata;
          (r, pcap1) = (if curexc i \<noteq> None then breakloop pcap else (Inr PyNone, pcap))
      in
      case r of
        Inl e \<Rightarrow> (pcap1, i\<lparr>curexc := Some e\<rparr>)
      | Inr v \<Rightarrow>
          (case callback of
             None \<Rightarrow> (dump_if_attached pkt pcap1, i)
           | Some cb \<Rightarrow>
               (let out = cb (calls i) pkt;
                    i2 = i\<lparr>calls := calls i @ [pkt]\<rparr>;
                    pcap2 = (if called_breakloop out then snd (breakloop pcap1) else pcap1)
                in
                case raised out of
                  Some e \<Rightarrow> (pcap2, i2\<lparr>curexc := Some e\<rparr>)
                | None \<Rightarrow> (dump_if_attached pkt pcap2, i2))))"

text \<open>
  Modelled from the spec: \<open>run_loop(handle, limit, callback_ptr, user_ctx) \<rightarrow> count |
  status\<close>, the engine's read loop. It runs on the state its handler works on, since
  the handler reaches the very handle the loop reads (\<open>ctx.pcap\<close>). Before each read
  the break flag is checked: the unbounded loop, and a dispatch that has processed
  nothing, clear it and give -2; a dispatch that has processed packets gives their
  count and leaves the flag. Each packet that passes the filter goes to the handler, in
  the order the source yields them; a positive limit ends the run when reached. A read
  error gives -1. At the end of a savefile the run ends; a read timeout ends a dispatch
  but not a loop; a loop on a live source with nothing left waits for ever (\<open>None\<close>).
\<close>

type_synonym 'a pcap_handler = "pcap_pkthdr \<Rightarrow> bytes \<Rightarrow> 'a world \<Rightarrow> 'a world"

definition upd_handle :: "(pcap_t \<Rightarrow> pcap_t) \<Rightarrow> 'a world \<Rightarrow> 'a world" where
  "upd_handle f w = ((fst w)\<lparr>self_pcap := map_option f (self_pcap (fst w))\<rparr>, snd w)"

definition break_pending :: "'a world \<Rightarrow> bool" where
  "break_pending w = (case self_pcap (fst w) of None \<Rightarrow> False | Some p \<Rightarrow> break_loop p)"

definition break_exit :: "bool \<Rightarrow> int \<Rightarrow> event list \<Rightarrow> 'a world \<Rightarrow> int \<times> event list \<times> 'a world" where
  "break_exit lp n evs w =
     (if lp \<or> n = 0 then (-2, evs, upd_handle (\<lambda>p. p\<lparr>break_loop := False\<rparr>) w)
      else (n, evs, w))"

fun pcap_read ::
  "bool \<Rightarrow> bool \<Rightarrow> bpf_program option \<Rightarrow> int \<Rightarrow> 'a pcap_handler \<Rightarrow> int \<Rightarrow> event list \<Rightarrow> 'a world
   \<Rightarrow> (int \<times> event list \<times> 'a world) option" where
  "pcap_read lp sf fc cnt cb n [] w =
     (if break_pending w then Some (break_exit lp n [] w)
      else if sf then Some (if lp then 0 else n, [], w)
      else if lp then None
      else Some (n, [], w))"
| "pcap_read lp sf fc cnt cb n (EvTimeout # evs) w =
     (if break_pending w then Some (break_exit lp n (EvTimeout # evs) w)
      else if lp then pcap_read lp sf fc cnt cb n evs w
      else Some (n, evs, w))"
| "pcap_read lp sf fc cnt cb n (EvError m # evs) w =
     (if break_pending w then Some (break_exit lp n (EvError m # evs) w)
      else Some (-1, evs, upd_handle (\<lambda>p. p\<lparr>errbuf := m\<rparr>) w))"
| "pcap_read lp sf fc cnt cb n (EvPacket h sp # evs) w =
     (if break_pending w then Some (break_exit lp n (EvPacket h sp # evs) w)
      else if passes fc h sp then
        (if 0 < cnt \<and> cnt \<le> n + 1 then Some (if lp then 0 else n + 1, evs, cb h sp w)
         else pcap_read lp sf fc cnt cb (n + 1) evs (cb h sp w))
      else pcap_read lp sf fc cnt cb n evs w)"

definition pcap_run ::
  "bool \<Rightarrow> pcap_t \<Rightarrow> int \<Rightarrow> 'a pcap_handler \<Rightarrow> 'a world \<Rightarrow> (int \<times> 'a world) option" where
  "pcap_run lp p cnt cb w =
     (if \<not> activated p then Some (PCAP_ERROR_NOT_ACTIVATED, w)
      else
        (case pcap_read lp (is_savefile p) (fcode p) cnt cb 0 (pending p) w of
           None \<Rightarrow> None
         | Some (res, rest, w') \<Rightarrow> Some (res, upd_handle (\<lambda>q. q\<lparr>pending := rest\<rparr>) w')))"

definition pcap_dispatch :: "pcap_t \<Rightarrow> int \<Rightarrow> 'a pcap_handler \<Rightarrow> 'a world \<Rightarrow> (int \<times> 'a world) option" where
  "pcap_dispatch = pcap_run False"

definition pcap_loop :: "pcap_t \<Rightarrow> int \<Rightarrow> 'a pcap_handler \<Rightarrow> 'a world \<Rightarrow> (int \<times> 'a world) option" where
  "pcap_loop = pcap_run True"

text \<open>
  \<open>__loop_common\<close>. The count is converted for the native call. The result is
  \<open>None\<close> when the native loop never returns. When it returns,
  \<open>err = <object>PyErr_Occurred()\<close> takes a reference to what \<open>PyErr_Occurred\<close>
  gave: with an exception pending that is its type, and \<open>raise sys.exc_info()\<close>
  follows (a raised exception leaves the indicator, so the state handed back has none
  pending); with nothing pending it is NULL, and the process dies there. So the lines
  after, which would turn the native status into the count, \<open>None\<close>, \<open>PcapError\<close>
  or \<open>PcapErrorBreak\<close>, are never reached.
\<close>

definition loop_common ::
  "definitions \<Rightarrow> host \<Rightarrow> int \<Rightarrow> int \<Rightarrow> callback option \<Rightarrow> 'a world
   \<Rightarrow> ((pyexc + int option) \<times> 'a world) option" where
  "loop_common d hst looptype count callback w =
     (if \<not> self_activated (fst w) then Some (Inl NotActivated, w)
      else
        (case as_c_int count of
           Inl e \<Rightarrow> Some (Inl e, w)
         | Inr cnt \<Rightarrow>
             (case self_pcap (fst w) of
                None \<Rightarrow> Some (Inl segfault, w)
              | Some p \<Rightarrow>
                  (case (if looptype = PCAP_LOOP_DISPATCH
                         then pcap_dispatch p cnt (pcap_callback_fn callback) w
                         else pcap_loop p cnt (pcap_callback_fn callback) w) of
                     None \<Rightarrow> None
                   | Some (res, w') \<Rightarrow>
                       Some
                         (case curexc (snd w') of
                            None \<Rightarrow> (Inl segfault, w')
                          | Some err \<Rightarrow>
                              (Inl (exc_info_raise hst err),
                               (fst w', (snd w')\<lparr>curexc := None\<rparr>)))))))"

definition dispatch ::
  "definitions \<Rightarrow> host \<Rightarrow> int \<Rightarrow> callback option \<Rightarrow> 'a world \<Rightarrow> ((pyexc + int option) \<times> 'a world) option" where
  "dispatch d hst count callback w = loop_common d hst PCAP_LOOP_DISPATCH count callback w"

definition loop ::
  "definitions \<Rightarrow> host \<Rightarrow> int \<Rightarrow> callback option \<Rightarrow> 'a world \<Rightarrow> ((pyexc + int option) \<times> 'a world) option" where
  "loop d hst count callback w = loop_common d hst PCAP_LOOP_LOOP count callback w"

subsection \<open>Filter, datalink, activated\<close>

datatype filter_arg = ArgBpfProgram BpfProgram | ArgString string | ArgOther

definition filter_get :: "'a Pcap_scheme \<Rightarrow> BpfProgram option" where
  "filter_get self = self_filter self"

definition filter_set ::
  "definitions \<Rightarrow> 'a Pcap_scheme \<Rightarrow> filter_arg \<Rightarrow> (pyexc + unit) \<times> 'a Pcap_scheme" where
  "filter_set d self arg =
     (if \<not> self_activated self then (Inl NotActivated, self)
      else
        (case (case arg of
                 ArgBpfProgram b \<Rightarrow> Inr b
               | ArgString fs \<Rightarrow> BpfProgram_init d self fs
               | ArgOther \<Rightarrow> Inl (Exc TypeError [''Must pass a BpfProgram or string type''])) of
           Inl e \<Rightarrow> (Inl e, self)
         | Inr b \<Rightarrow>
             (let self1 = self\<lparr>self_filter := Some b\<rparr> in
              case self_pcap self1 of
                None \<Rightarrow> (Inl segfault, self1)
              | Some p \<Rightarrow>
                  (let (res, p') = pcap_setfilter p (bpf b);
                       self2 = self1\<lparr>self_pcap := Some p'\<rparr>
                   in
                   if res = -1 then (Inl (Exc PcapError [pcap_geterr p']), self2)
                   else if \<not> PCAP_V0 d \<and> res = PCAP_ERROR_NOT_ACTIVATED
                   then (Inl NotActivated, self2)
                   else (Inr (), self2)))))"

definition datalink_get :: "'a Pcap_scheme \<Rightarrow> pyexc + string" where
  "datalink_get self =
     (if \<not> self_activated self then Inl NotActivated
      else (case self_pcap self of None \<Rightarrow> Inl segfault | Some p \<Rightarrow> Inr (linktype_name p)))"

definition activated_get :: "'a Pcap_scheme \<Rightarrow> bool" where
  "activated_get self = self_activated self"

section \<open>Live sessions\<close>

text \<open>
  The properties of \<open>PcapLive\<close>, each as its getter and its setter. A message built
  with \<open>%\<close> is kept as its format string.
\<close>

definition Activated :: pyexc where
  "Activated = Exc PcapErrorActivated []"

definition too_old :: pyexc where
  "too_old = Exc PcapError [''%s is too old for this call'']"

definition snaplen_get :: "PcapLive \<Rightarrow> int option" where
  "snaplen_get self = self_snaplen self"

definition snaplen_set :: "definitions \<Rightarrow> PcapLive \<Rightarrow> int \<Rightarrow> (pyexc + unit) \<times> PcapLive" where
  "snaplen_set d self snaplen =
     (if PCAP_V0 d then
        (if self_pcap self \<noteq> None then (Inl Activated, self)
         else (Inr (), self\<lparr>self_snaplen := Some snaplen\<rparr>))
      else
        (case as_c_int snaplen of
           Inl e \<Rightarrow> (Inl e, self)
         | Inr c \<Rightarrow>
             (case self_pcap self of
                None \<Rightarrow> (Inl segfault, self)
              | Some p \<Rightarrow>
                  (let (res, p') = pcap_set_snaplen p c;
                       self1 = self\<lparr>self_pcap := Some p'\<rparr>
                   in
                   if res = PCAP_ERROR_ACTIVATED then (Inl Activated, self1)
                   else (Inr (), self1\<lparr>self_snaplen := Some snaplen\<rparr>)))))"

definition promisc_get :: "PcapLive \<Rightarrow> bool option" where
  "promisc_get self = self_promisc self"

definition promisc_set :: "definitions \<Rightarrow> PcapLive \<Rightarrow> bool \<Rightarrow> (pyexc + unit) \<times> PcapLive" where
  "promisc_set d self promisc =
     (if PCAP_V0 d then
        (if self_pcap self \<noteq> None then (Inl Activated, self)
         else (Inr (), self\<lparr>self_promisc := Some promisc\<rparr>))
      else
        (case self_pcap self of
           None \<Rightarrow> (Inl segfault, self)
         | Some p \<Rightarrow>
             (let (res, p') = pcap_set_promisc p promisc;
                  self1 = self\<lparr>self_pcap := Some p'\<rparr>
              in
              if res = PCAP_ERROR_ACTIVATED then (Inl Activated, self1)
              else (Inr (), self1\<lparr>self_promisc := Some promisc\<rparr>))))"

definition timeout_get :: "PcapLive \<Rightarrow> int option" where
  "timeout_get self = self_timeout self"

definition timeout_set :: "definitions \<Rightarrow> PcapLive \<Rightarrow> int \<Rightarrow> (pyexc + unit) \<times> PcapLive" where
  "timeout_set d self timeout =
     (if PCAP_V0 d then
        (if self_pcap self \<noteq> None then (Inl Activated, self)
         else (Inr (), self\<lparr>self_timeout := Some timeout\<rparr>))
      else
        (case as_c_int timeout of
           Inl e \<Rightarrow> (Inl e, self)
         | Inr c \<Rightarrow>
             (case self_pcap self of
                None \<Rightarrow> (Inl segfault, self)
              | Some p \<Rightarrow>
                  (let (res, p') = pcap_set_timeout p c;
                       self1 = self\<lparr>self_pcap := Some p'\<rparr>
                   in
                   if res = PCAP_ERROR_ACTIVATED then (Inl Activated, self1)
                   else (Inr (), self1\<lparr>self_timeout := Some timeout\<rparr>)))))"

definition rfmon_get :: "definitions \<Rightarrow> PcapLive \<Rightarrow> pyexc + bool option" where
  "rfmon_get d self = (if PCAP_V0 d then Inl too_old else Inr (self_rfmon self))"

text \<open>
  The \<open>rfmon\<close> setter. Its last branch has \<open>raise PCAP_ERROR_ACTIVATED\<close>: raising an
  integer is a \<open>TypeError\<close> in Python. A probe status no branch names falls off the
  chain, and the setter returns.
\<close>

definition rfmon_set :: "definitions \<Rightarrow> PcapLive \<Rightarrow> bool \<Rightarrow> (pyexc + unit) \<times> PcapLive" where
  "rfmon_set d self rfmon =
     (if PCAP_V0 d then (Inl too_old, self)
      else
        (case self_pcap self of
           None \<Rightarrow> (Inl segfault, self)
         | Some p \<Rightarrow>
             (let res = pcap_can_set_rfmon p in
              if res = 0 then (Inr (), self)
              else if res = PCAP_ERROR_NO_SUCH_DEVICE then (Inl (Exc PcapErrorNoSuchDevice []), self)
              else if res = PCAP_ERROR_ACTIVATED then (Inl Activated, self)
              else if res = PCAP_ERROR then (Inl (Exc PcapError [pcap_geterr p]), self)
              else if res = 1 then
                (let (res2, p') = pcap_set_rfmon p rfmon;
                     self1 = self\<lparr>self_pcap := Some p'\<rparr>
                 in
                 if res2 = PCAP_ERROR_ACTIVATED
                 then (Inl (Exc TypeError [''exceptions must derive from BaseException'']), self1)
                 else (Inr (), self1\<lparr>self_rfmon := Some rfmon\<rparr>))
              else (Inr (), self))))"

definition buffer_size_get :: "definitions \<Rightarrow> PcapLive \<Rightarrow> pyexc + int option" where
  "buffer_size_get d self = (if PCAP_V0 d then Inl too_old else Inr (self_buffer_size self))"

definition buffer_size_set :: "definitions \<Rightarrow> PcapLive \<Rightarrow> int \<Rightarrow> (pyexc + unit) \<times> PcapLive" where
  "buffer_size_set d self timeout =
     (if PCAP_V0 d then (Inl too_old, self)
      else
        (case as_c_int timeout of
           Inl e \<Rightarrow> (Inl e, self)
         | Inr c \<Rightarrow>
             (case self_pcap self of
                None \<Rightarrow> (Inl segfault, self)
              | Some p \<Rightarrow>
                  (let (res, p') = pcap_set_buffer_size p c;
                       self1 = self\<lparr>self_pcap := Some p'\<rparr>
                   in
                   if res = PCAP_ERROR_ACTIVATED then (Inl Activated, self1)
                   else (Inr (), self1)))))"

definition interface_get :: "PcapLive \<Rightarrow> string option" where
  "interface_get self = self_interface self"

definition fileno_get :: "PcapLive \<Rightarrow> pyexc + int" where
  "fileno_get self =
     (case self_pcap self of
        None \<Rightarrow> Inl segfault
      | Some p \<Rightarrow>
          (let res = pcap_fileno p in
           if res = -1 then Inl NotActivated else Inr res))"

definition blocking_get :: "PcapLive \<Rightarrow> pyexc + pyval" where
  "blocking_get self =
     (if \<not> self_activated self then Inl NotActivated
      else
        (case self_pcap self of
           None \<Rightarrow> Inl segfault
         | Some p \<Rightarrow>
             (let res = pcap_getnonblock p in
              if res = -1 then Inl (Exc PcapError [errbuf p])
              else if res = 0 then Inr (PyBool True)
              else if res = 1 then Inr (PyBool False)
              else Inr (PyExcObj (Exc PcapError [''Unknown error''])))))"

definition blocking_set :: "definitions \<Rightarrow> PcapLive \<Rightarrow> bool \<Rightarrow> (pyexc + unit) \<times> PcapLive" where
  "blocking_set d self blocking =
     (if \<not> self_activated self then (Inl NotActivated, self)
      else
        (case self_pcap self of
           None \<Rightarrow> (Inl segfault, self)
         | Some p \<Rightarrow>
             (let (res, p') = pcap_setnonblock p (\<not> blocking);
                  self1 = self\<lparr>self_pcap := Some p'\<rparr>
              in
              if res = -1 then (Inl (Exc PcapError [errbuf p']), self1)
              else if \<not> PCAP_V0 d \<and> res = PCAP_ERROR_NOT_ACTIVATED then (Inl NotActivated, self1)
              else if res \<noteq> 0 then (Inl (Exc PcapError [''Unknown error %d'']), self1)
              else (Inr (), self1))))"

text \<open>\<open>if self.__autosave: self.__dumper = PcapDumper(self, self.__autosave)\<close>\<close>

definition attach_autosave :: "'a Pcap_scheme \<Rightarrow> (pyexc + unit) \<times> 'a Pcap_scheme" where
  "attach_autosave self =
     (case self_autosave self of
        None \<Rightarrow> (Inr (), self)
      | Some fname \<Rightarrow>
          (if fname = [] then (Inr (), self)
           else
             (case PcapDumper_init self fname of
                Inl e \<Rightarrow> (Inl e, self)
              | Inr dm \<Rightarrow> (Inr (), self\<lparr>self_dumper := Some dm\<rparr>))))"

text \<open>
  The arguments of \<open>pcap_open_live\<close>, converted in order: an attribute still \<open>None\<close>
  cannot be converted (\<open>TypeError\<close>), an integer outside the range of \<open>int\<close> raises
  \<open>OverflowError\<close>.
\<close>

definition open_live_args :: "PcapLive \<Rightarrow> pyexc + string \<times> int \<times> bool \<times> int" where
  "open_live_args self =
     (case self_interface self of
        None \<Rightarrow> Inl (Exc TypeError [''expected string or Unicode object''])
      | Some ifc \<Rightarrow>
          (case self_snaplen self of
             None \<Rightarrow> Inl (Exc TypeError [''an integer is required''])
           | Some sl \<Rightarrow>
               (case as_c_int sl of
                  Inl e \<Rightarrow> Inl e
                | Inr csl \<Rightarrow>
                    (case self_promisc self of
                       None \<Rightarrow> Inl (Exc TypeError [''an integer is required''])
                     | Some pr \<Rightarrow>
                         (case self_timeout self of
                            None \<Rightarrow> Inl (Exc TypeError [''an integer is required''])
                          | Some tm \<Rightarrow>
                              (case as_c_int tm of
                                 Inl e \<Rightarrow> Inl e
                               | Inr ctm \<Rightarrow> Inr (ifc, csl, pr, ctm)))))))"

text \<open>
  \<open>PcapLive.activate\<close>. In the old-API build it opens the handle. In the other build a
  status no branch names falls off the chain, to the autosave step.
\<close>

definition activate :: "definitions \<Rightarrow> host \<Rightarrow> PcapLive \<Rightarrow> (pyexc + unit) \<times> PcapLive" where
  "activate d hst self =
     (if PCAP_V0 d then
        (if self_activated self then (Inl Activated, self)
         else
           (case open_live_args self of
              Inl e \<Rightarrow> (Inl e, self)
            | Inr (ifc, sl, pr, tm) \<Rightarrow>
                (case pcap_open_live hst ifc sl pr tm of
                   Inl e \<Rightarrow> (Inl (Exc PcapError [e]), self\<lparr>self_pcap := None\<rparr>)
                 | Inr p \<Rightarrow> attach_autosave (self\<lparr>self_pcap := Some p, self_activated := True\<rparr>))))
      else
        (case self_pcap self of
           None \<Rightarrow> (Inl segfault, self)
         | Some p \<Rightarrow>
             (let (res, p') = pcap_activate p;
                  self1 = self\<lparr>self_pcap := Some p'\<rparr>
              in
              if res = 0 then attach_autosave (self1\<lparr>self_activated := True\<rparr>)
              else if res = PCAP_WARNING_PROMISC_NOTSUP
              then (Inl (Exc PcapWarningPromiscNotSup [pcap_geterr p']), self1)
              else if res = PCAP_WARNING then (Inl (Exc PcapWarning [pcap_geterr p']), self1)
              else if res = PCAP_ERROR_ACTIVATED then (Inl Activated, self1)
              else if res = PCAP_ERROR_NO_SUCH_DEVICE
              then (Inl (Exc PcapErrorNoSuchDevice [pcap_geterr p']), self1)
              else if res = PCAP_ERROR_PERM_DENIED
              then (Inl (Exc PcapErrorPermDenied [pcap_geterr p']), self1)
              else if res = PCAP_ERROR_RFMON_NOTSUP then (Inl (Exc PcapErrorRfmonNotSup []), self1)
              else if res = PCAP_ERROR_IFACE_NOT_UP then (Inl (Exc PcapErrorIfaceNotUp []), self1)
              else if res = PCAP_ERROR then (Inl (Exc PcapError [pcap_geterr p']), self1)
              else attach_autosave self1)))"

text \<open>
  \<open>PcapLive.__init__\<close>: the defaults go through the property setters, so each can
  raise; \<open>then_do\<close> is the sequencing of statements.
\<close>

definition then_do ::
  "(pyexc + unit) \<times> 's \<Rightarrow> ('s \<Rightarrow> (pyexc + unit) \<times> 's) \<Rightarrow> (pyexc + unit) \<times> 's" where
  "then_do r f = (case r of (Inl e, s) \<Rightarrow> (Inl e, s) | (Inr u, s) \<Rightarrow> f s)"

definition PcapLive_new :: PcapLive where
  "PcapLive_new =
     \<lparr>self_pcap = None, self_dumper = None, self_filter = None, self_autosave = None,
      self_activated = False, self_snaplen = None, self_promisc = None, self_rfmon = None,
      self_timeout = None, self_buffer_size = None, self_interface = None\<rparr>"

definition PcapLive_init ::
  "definitions \<Rightarrow> host \<Rightarrow> string \<Rightarrow> int \<Rightarrow> bool \<Rightarrow> bool \<Rightarrow> int \<Rightarrow> int \<Rightarrow> string option
   \<Rightarrow> pyexc + PcapLive" where
  "PcapLive_init d hst interface snaplen promisc rfmon timeout buffer_size autosave =
     (let self0 = PcapLive_new\<lparr>self_interface := Some interface, self_activated := False\<rparr>;
          created =
            (if \<not> PCAP_V0 d then
               (case pcap_create hst interface of
                  Inl e \<Rightarrow> (Inl (Exc PcapError [e]), self0)
                | Inr p \<Rightarrow> (Inr (), self0\<lparr>self_pcap := Some p\<rparr>))
             else (Inr (), self0));
          r =
            then_do created (\<lambda>s.
            then_do (snaplen_set d s snaplen) (\<lambda>s.
            then_do (promisc_set d s promisc) (\<lambda>s.
            then_do (timeout_set d s timeout) (\<lambda>s.
            then_do (Inr (), s\<lparr>self_autosave := autosave\<rparr>) (\<lambda>s.
              if PCAP_V0 d then (Inr (), s)
              else then_do (rfmon_set d s rfmon) (\<lambda>s. buffer_size_set d s buffer_size))))))
      in case r of (Inl e, s) \<Rightarrow> Inl e | (Inr u, s) \<Rightarrow> Inr s)"

section \<open>Offline sessions\<close>

definition PcapOffline_new :: PcapOffline where
  "PcapOffline_new =
     \<lparr>self_pcap = None, self_dumper = None, self_filter = None, self_autosave = None,
      self_activated = False, self_filename = None\<rparr>"

definition PcapOffline_init ::
  "host \<Rightarrow> string \<Rightarrow> string option \<Rightarrow> pyexc + PcapOffline" where
  "PcapOffline_init hst filename autosave =
     (let self0 = PcapOffline_new\<lparr>self_filename := Some filename, self_autosave := autosave,
                                 self_activated := False\<rparr>
      in
      case pcap_open_offline hst filename of
        Inl e \<Rightarrow> Inl (Exc PcapError [e])
      | Inr p \<Rightarrow>
          (case attach_autosave (self0\<lparr>self_pcap := Some p, self_activated := True\<rparr>) of
             (Inl e, s) \<Rightarrow> Inl e
           | (Inr u, s) \<Rightarrow> Inr s))"

definition filename_get :: "PcapOffline \<Rightarrow> string option" where
  "filename_get self = self_filename self"

definition offline_snaplen_get :: "PcapOffline \<Rightarrow> pyexc + int" where
  "offline_snaplen_get self =
     (case self_pcap self of None \<Rightarrow> Inl segfault | Some p \<Rightarrow> Inr (snapshot p))"

definition swapped_get :: "PcapOffline \<Rightarrow> pyexc + int" where
  "swapped_get self =
     (case self_pcap self of None \<Rightarrow> Inl segfault | Some p \<Rightarrow> Inr (swapped p))"

definition major_version_get :: "PcapOffline \<Rightarrow> pyexc + int" where
  "major_version_get self =
     (case self_pcap self of None \<Rightarrow> Inl segfault | Some p \<Rightarrow> Inr (version_major p))"

definition minor_version_get :: "PcapOffline \<Rightarrow> pyexc + int" where
  "minor_version_get self =
     (case self_pcap self of None \<Rightarrow> Inl segfault | Some p \<Rightarrow> Inr (version_minor p))"

section \<open>The public interface as operations\<close>

text \<open>
  Every method and property of a session a caller can use after construction, as a
  value, and the state each leaves behind (\<open>None\<close> when a loop never returns). Reading
  a property leaves the state as it is.
\<close>

datatype pcap_op =
    OpIter | OpNext | OpDispatch int "callback option" | OpLoop int "callback option"
  | OpBreakloop | OpFilterGet | OpFilterSet filter_arg | OpDatalinkGet | OpActivatedGet

datatype live_op =
    LiveCommon pcap_op
  | OpInterfaceGet | OpSnaplenGet | OpSnaplenSet int | OpPromiscGet | OpPromiscSet bool
  | OpTimeoutGet | OpTimeoutSet int | OpRfmonGet | OpRfmonSet bool
  | OpBufferSizeGet | OpBufferSizeSet int | OpFilenoGet | OpBlockingGet | OpBlockingSet bool
  | OpActivate

datatype offline_op =
    OfflineCommon pcap_op
  | OpFilenameGet | OpOfflineSnaplenGet | OpSwappedGet | OpMajorVersionGet | OpMinorVersionGet

fun pcap_step :: "definitions \<Rightarrow> host \<Rightarrow> pcap_op \<Rightarrow> 'a world \<Rightarrow> 'a world option" where
  "pcap_step d hst OpIter w = Some w"
| "pcap_step d hst OpNext w = Some (snd (Pcap_next d (fst w)), snd w)"
| "pcap_step d hst (OpDispatch count cb) w = map_option snd (dispatch d hst count cb w)"
| "pcap_step d hst (OpLoop count cb) w = map_option snd (loop d hst count cb w)"
| "pcap_step d hst OpBreakloop w = Some (snd (breakloop (fst w)), snd w)"
| "pcap_step d hst OpFilterGet w = Some w"
| "pcap_step d hst (OpFilterSet arg) w = Some (snd (filter_set d (fst w) arg), snd w)"
| "pcap_step d hst OpDatalinkGet w = Some w"
| "pcap_step d hst OpActivatedGet w = Some w"

fun live_step :: "definitions \<Rightarrow> host \<Rightarrow> live_op \<Rightarrow> unit PcapLive_ext world \<Rightarrow> unit PcapLive_ext world option" where
  "live_step d hst (LiveCommon op) w = pcap_step d hst op w"
| "live_step d hst (OpSnaplenSet v) w = Some (snd (snaplen_set d (fst w) v), snd w)"
| "live_step d hst (OpPromiscSet v) w = Some (snd (promisc_set d (fst w) v), snd w)"
| "live_step d hst (OpTimeoutSet v) w = Some (snd (timeout_set d (fst w) v), snd w)"
| "live_step d hst (OpRfmonSet v) w = Some (snd (rfmon_set d (fst w) v), snd w)"
| "live_step d hst (OpBufferSizeSet v) w = Some (snd (buffer_size_set d (fst w) v), snd w)"
| "live_step d hst (OpBlockingSet v) w = Some (snd (blocking_set d (fst w) v), snd w)"
| "live_step d hst OpActivate w = Some (snd (activate d hst (fst w)), snd w)"
| "live_step d hst OpInterfaceGet w = Some w"
| "live_step d hst OpSnaplenGet w = Some w"
| "live_step d hst OpPromiscGet w = Some w"
| "live_step d hst OpTimeoutGet w = Some w"
| "live_step d hst OpRfmonGet w = Some w"
| "live_step d hst OpBufferSizeGet w = Some w"
| "live_step d hst OpFilenoGet w = Some w"
| "live_step d hst OpBlockingGet w = Some w"

fun offline_step ::
  "definitions \<Rightarrow> host \<Rightarrow> offline_op \<Rightarrow> unit PcapOffline_ext world \<Rightarrow> unit PcapOffline_ext world option" where
  "offline_step d hst (OfflineCommon op) w = pcap_step d hst op w"
| "offline_step d hst OpFilenameGet w = Some w"
| "offline_step d hst OpOfflineSnaplenGet w = Some w"
| "offline_step d hst OpSwappedGet w = Some w"
| "offline_step d hst OpMajorVersionGet w = Some w"
| "offline_step d hst OpMinorVersionGet w = Some w"

text \<open>
  A session's life: one operation after the other, while each returns. An operation that
  ends in \<open>Segfault\<close> is kept as a step with the state it left, so a property of all
  runs covers more than the program can do, never less.
\<close>

fun run_ops :: "('op \<Rightarrow> 'w \<Rightarrow> 'w option) \<Rightarrow> 'op list \<Rightarrow> 'w \<Rightarrow> 'w option" where
  "run_ops step [] w = Some w"
| "run_ops step (op # ops) w = (case step op w of None \<Rightarrow> None | Some w' \<Rightarrow> run_ops step ops w')"

section \<open>Example sessions\<close>

text \<open>
  Concrete inputs for evaluating the model: a packet header with given lengths, a
  device or savefile handle, a host that opens it, the build with the current API, and a
  platform with the usual Linux address families.
\<close>

definition ex_hdr :: "32 word \<Rightarrow> 32 word \<Rightarrow> pcap_pkthdr" where
  "ex_hdr c l = \<lparr>ts = \<lparr>tv_sec = 0, tv_usec = 0\<rparr>, caplen = c, len = l\<rparr>"

definition ex_handle :: pcap_t where
  "ex_handle =
     \<lparr>activated = False, is_savefile = False, break_loop = False, snapshot = 65535,
      opt_promisc = False, opt_timeout = 0, opt_rfmon = False, opt_buffer_size = 0,
      fcode = None, errbuf = [], pending = [], fd = 3, nonblock = 0,
      linktype_name = ''EN10MB'', swapped = 0, version_major = 2, version_minor = 4,
      activate_op = 0, can_set_rfmon_op = 0,
      compile_op = (\<lambda>fs. if fs = ''less 2'' then Some (\<lambda>h sp. len h \<le> 2) else None),
      setfilter_op = (\<lambda>f. 0), setnonblock_op = (\<lambda>b. 0), dump_open_op = (\<lambda>f. True)\<rparr>"

definition ex_host :: "pcap_t \<Rightarrow> host" where
  "ex_host p =
     \<lparr>create_op = (\<lambda>n. Inr p), open_live_op = (\<lambda>n. Inr p), open_offline_op = (\<lambda>f. Inr p),
      exc_info_raise = (\<lambda>e. e)\<rparr>"

definition ex_defs :: definitions where
  "ex_defs = \<lparr>PCAP_V0 = False, HAVE_AF_PACKET = True, HAVE_AF_LINK = False\<rparr>"

definition ex_platform :: platform where
  "ex_platform =
     \<lparr>AF_INET = 2, AF_INET6 = 10, AF_PACKET = 17, AF_LINK = 18,
      sizeof_sockaddr_in = 16, sizeof_sockaddr_in6 = 28, sizeof_sockaddr_ll = 20,
      sizeof_sockaddr_dl = 20,
      getnameinfo = (\<lambda>a n. if sa_family a = 2 then (0, ''192.0.2.1'') else (-2, []))\<rparr>"

text \<open>
  An enumeration of two interfaces: a loopback without addresses, and an interface with
  one address whose netmask is of a family the platform does not know and whose other
  two pointers are null.
\<close>

definition ex_address :: pcap_addr_t where
  "ex_address =
     \<lparr>addr = Some \<lparr>sa_family = 2, sa_data = [192, 0, 2, 1]\<rparr>,
      netmask = Some \<lparr>sa_family = 99, sa_data = []\<rparr>,
      broadaddr = None, dstaddr = None\<rparr>"

definition ex_interfaces :: "pcap_if_t list" where
  "ex_interfaces =
     [\<lparr>if_name = Some ''lo'', if_description = None, if_flags = 1, if_addresses = []\<rparr>,
      \<lparr>if_name = Some ''eth0'', if_description = None, if_flags = 0,
       if_addresses = [ex_address]\<rparr>]"

definition ex_interp :: interp where
  "ex_interp = \<lparr>curexc = None, calls = []\<rparr>"

text \<open>A callback that raises on the first packet it is given and returns afterwards.\<close>

definition raise_first :: callback where
  "raise_first hist pkt =
     \<lparr>raised = (if hist = [] then Some (Exc (UserError ''ValueError'') [''boom'']) else None),
      called_breakloop = False\<rparr>"

text \<open>A callback that raises on packets longer than two bytes on the wire.\<close>

definition ex_picky :: callback where
  "ex_picky hist pkt =
     \<lparr>raised = (if 2 < PcapPacket_wirelen pkt then Some (Exc (UserError ''ValueError'') [])
                else None),
      called_breakloop = False\<rparr>"

text \<open>A callback that raises every time, saying whether it is its first call.\<close>

definition raise_each :: callback where
  "raise_each hist pkt =
     \<lparr>raised = Some (Exc (UserError ''ValueError'') [if hist = [] then ''first'' else ''again'']),
      called_breakloop = False\<rparr>"

lemmas pcap_codes =
  PCAP_ERROR_def PCAP_ERROR_BREAK_def PCAP_ERROR_NOT_ACTIVATED_def PCAP_ERROR_ACTIVATED_def
  PCAP_ERROR_NO_SUCH_DEVICE_def PCAP_ERROR_RFMON_NOTSUP_def PCAP_ERROR_NOT_RFMON_def
  PCAP_ERROR_PERM_DENIED_def PCAP_ERROR_IFACE_NOT_UP_def PCAP_WARNING_def
  PCAP_WARNING_PROMISC_NOTSUP_def

lemmas ex_simps =
  ex_hdr_def ex_handle_def ex_host_def ex_defs_def ex_platform_def ex_interp_def

section \<open>Example sessions, evaluated\<close>

lemmas live_init_defs = PcapLive_init_def PcapLive_new_def pcap_create_def then_do_def
  snaplen_set_def promisc_set_def timeout_set_def rfmon_set_def buffer_size_set_def
  pcap_set_snaplen_def pcap_set_promisc_def pcap_set_timeout_def pcap_set_rfmon_def
  pcap_set_buffer_size_def pcap_can_set_rfmon_def

lemmas loop_eval_defs =
  loop_def loop_common_def pcap_loop_def pcap_dispatch_def pcap_run_def pcap_callback_fn_def
  PcapPacket_factory_def breakloop_def pcap_breakloop_def dump_if_attached_def break_pending_def
  break_exit_def upd_handle_def passes_def PCAP_LOOP_LOOP_def PCAP_LOOP_DISPATCH_def
  PcapDumper_dump_def pcap_dump_def PcapPacket_data_def as_c_int_def

lemma self_pcap_same: "self_pcap s = Some p \<Longrightarrow> s\<lparr>self_pcap := Some p\<rparr> = s"
  by (cases s) simp

lemma as_c_int_in_range: "- (2 ^ 31) \<le> v \<Longrightarrow> v < 2 ^ 31 \<Longrightarrow> as_c_int v = Inr v"
  by (simp add: as_c_int_def)

lemma ex_live_init:
  "can_set_rfmon_op p = 0 \<Longrightarrow>
   as_c_int sl = Inr sl \<Longrightarrow> as_c_int tm = Inr tm \<Longrightarrow> as_c_int bs = Inr bs \<Longrightarrow>
   PcapLive_init ex_defs (ex_host p) ifc sl pr rf tm bs au =
     Inr \<lparr>self_pcap = Some (p\<lparr>activated := False, is_savefile := False, break_loop := False,
                             snapshot := sl, opt_promisc := pr, opt_timeout := tm,
                             opt_buffer_size := bs\<rparr>),
          self_dumper = None, self_filter = None, self_autosave = au, self_activated = False,
          self_snaplen = Some sl, self_promisc = Some pr, self_rfmon = None,
          self_timeout = Some tm, self_buffer_size = None, self_interface = Some ifc\<rparr>"
  by (simp add: live_init_defs ex_host_def ex_defs_def Let_def pcap_codes)

lemma ex_offline_init:
  "PcapOffline_init (ex_host p) f None =
     Inr \<lparr>self_pcap = Some (p\<lparr>activated := True, is_savefile := True, break_loop := False\<rparr>),
          self_dumper = None, self_filter = None, self_autosave = None, self_activated = True,
          self_filename = Some f\<rparr>"
  by (simp add: PcapOffline_init_def PcapOffline_new_def pcap_open_offline_def ex_host_def
      attach_autosave_def)

lemma ex_live_activate:
  "activate_op p = 0 \<Longrightarrow> \<not> activated p \<Longrightarrow>
   activate ex_defs hst
     \<lparr>self_pcap = Some p, self_dumper = None, self_filter = None, self_autosave = None,
      self_activated = False, self_snaplen = sl, self_promisc = pr, self_rfmon = rf,
      self_timeout = tm, self_buffer_size = bs, self_interface = ifc\<rparr> =
   (Inr (),
     \<lparr>self_pcap = Some (p\<lparr>activated := True\<rparr>), self_dumper = None, self_filter = None,
      self_autosave = None, self_activated = True, self_snaplen = sl, self_promisc = pr,
      self_rfmon = rf, self_timeout = tm, self_buffer_size = bs, self_interface = ifc\<rparr>)"
  by (simp add: activate_def pcap_activate_def ex_defs_def attach_autosave_def)

section \<open>Packet value: what the lengths are\<close>

text \<open>
  C7 (as the claim states it, refuted). The claim: every PacketRecord a read produces has
  captured-length at most wire-length. A savefile whose record header says 10 bytes
  captured of a 5-byte packet is read into a record with captured-length 10 and
  wire-length 5: the factory copies the header, nothing compares the two lengths.
\<close>

theorem C7_caplen_above_wirelen:
  "(case PcapOffline_init
           (ex_host (ex_handle\<lparr>pending := [EvPacket (ex_hdr 10 5) [1, 2, 3, 4, 5, 6, 7, 8, 9, 10]]\<rparr>))
           ''in.pcap'' None of
      Inl e \<Rightarrow> False
    | Inr s \<Rightarrow>
        (case fst (Pcap_next ex_defs s) of
           Inl e \<Rightarrow> False
         | Inr pkt \<Rightarrow> PcapPacket_wirelen pkt < PcapPacket_caplen pkt))"
  by (simp add: ex_simps PcapOffline_init_def PcapOffline_new_def pcap_open_offline_def
      attach_autosave_def Pcap_next_def pcap_next_ex_def passes_def PcapPacket_factory_def
      dump_if_attached_def PcapPacket_wirelen_def PcapPacket_caplen_def Let_def pcap_codes)

lemma factory_lengths:
  "PcapPacket_caplen (PcapPacket_factory h sp) = uint (caplen h) \<and>
   PcapPacket_wirelen (PcapPacket_factory h sp) = uint (len h) \<and>
   (PcapPacket_caplen (PcapPacket_factory h sp) \<le> PcapPacket_wirelen (PcapPacket_factory h sp))
     = (caplen h \<le> len h) \<and>
   (PcapPacket_caplen (PcapPacket_factory h sp) = PcapPacket_wirelen (PcapPacket_factory h sp))
     = (caplen h = len h) \<and>
   (unat (caplen h) \<le> length sp \<longrightarrow>
      int (length (PcapPacket_data (PcapPacket_factory h sp)))
        = PcapPacket_caplen (PcapPacket_factory h sp))"
  by (auto simp: PcapPacket_caplen_def PcapPacket_wirelen_def PcapPacket_factory_def
      PcapPacket_data_def word_le_def min_def word_uint_eq_iff)

lemma next_ex_packet_is_pending:
  "pcap_next_ex p = (res, Some (h, sp), p') \<Longrightarrow> EvPacket h sp \<in> set (pending p)"
proof -
  assume a: "pcap_next_ex p = (res, Some (h, sp), p')"
  show ?thesis
  proof (cases "dropWhile (filtered_out (fcode p)) (pending p)")
    case Nil
    show ?thesis using a unfolding pcap_next_ex_def Nil by (simp split: if_splits)
  next
    case (Cons ev rest)
    then have m: "ev \<in> set (pending p)"
      by (metis list.set_intros(1) set_dropWhileD)
    show ?thesis using a m unfolding pcap_next_ex_def Cons
      by (cases ev) (simp_all split: if_splits)
  qed
qed

lemma next_record_from_engine:
  assumes "self_pcap self = Some p" and "fst (Pcap_next d self) = Inr pkt"
  shows "\<exists>h sp. EvPacket h sp \<in> set (pending p) \<and> pkt = PcapPacket_factory h sp"
proof -
  obtain res got p' where n: "pcap_next_ex p = (res, got, p')"
    by (cases "pcap_next_ex p") auto
  from assms n obtain h sp where "got = Some (h, sp)" and "pkt = PcapPacket_factory h sp"
    by (auto simp: Pcap_next_def Let_def segfault_def NotActivated_def
        split: if_splits option.splits)
  with n next_ex_packet_is_pending [of p res h sp p'] show ?thesis by blast
qed

lemma callback_fn_calls:
  "calls (snd (pcap_callback_fn cb h sp w)) = calls (snd w) \<or>
   calls (snd (pcap_callback_fn cb h sp w)) = calls (snd w) @ [PcapPacket_factory h sp]"
  by (cases w)
     (auto simp: pcap_callback_fn_def Let_def split: option.splits prod.splits sum.splits)

lemma break_exit_calls:
  "break_exit lp n evs w = (r, rest, w') \<Longrightarrow> calls (snd w') = calls (snd w)"
  by (auto simp: break_exit_def upd_handle_def split: if_splits)

lemma from_tail:
  "\<forall>pkt \<in> set ds. \<exists>h sp. EvPacket h sp \<in> set evs \<and> pkt = PcapPacket_factory h sp \<Longrightarrow>
   \<forall>pkt \<in> set ds. \<exists>h sp. EvPacket h sp \<in> set (ev # evs) \<and> pkt = PcapPacket_factory h sp"
  by (metis list.set_intros(2))

lemma pcap_read_calls:
  "pcap_read lp sf fc cnt (pcap_callback_fn cb) n evs w = Some (r, rest, w') \<Longrightarrow>
   \<exists>ds. calls (snd w') = calls (snd w) @ ds \<and>
        (\<forall>pkt \<in> set ds. \<exists>h sp. EvPacket h sp \<in> set evs \<and> pkt = PcapPacket_factory h sp)"
proof (induction evs arbitrary: n w)
  case Nil
  then show ?case
    by (auto simp: break_exit_calls split: if_splits)
next
  case (Cons ev evs)
  show ?case
  proof (cases "break_pending w")
    case True
    with Cons.prems have "calls (snd w') = calls (snd w)"
      by (cases ev) (auto simp: break_exit_calls)
    then show ?thesis by simp
  next
    case nb: False
    show ?thesis
    proof (cases ev)
      case (EvPacket h sp)
      show ?thesis
      proof (cases "passes fc h sp")
        case True
        let ?w1 = "pcap_callback_fn cb h sp w"
        from callback_fn_calls [of cb h sp w]
        obtain d1 where d1: "calls (snd ?w1) = calls (snd w) @ d1"
          "\<forall>pkt \<in> set d1. pkt = PcapPacket_factory h sp"
          by (cases "calls (snd ?w1) = calls (snd w)") auto
        show ?thesis
        proof (cases "0 < cnt \<and> cnt \<le> n + 1")
          case True
          with Cons.prems nb EvPacket \<open>passes fc h sp\<close> have "w' = ?w1" by auto
          with d1 EvPacket show ?thesis by auto
        next
          case False
          with Cons.prems nb EvPacket \<open>passes fc h sp\<close>
          have "pcap_read lp sf fc cnt (pcap_callback_fn cb) (n + 1) evs ?w1 = Some (r, rest, w')"
            by auto
          from Cons.IH [OF this] obtain d2 where d2: "calls (snd w') = calls (snd ?w1) @ d2"
            "\<forall>pkt \<in> set d2. \<exists>h sp. EvPacket h sp \<in> set evs \<and> pkt = PcapPacket_factory h sp"
            by blast
          have "calls (snd w') = calls (snd w) @ (d1 @ d2)" using d1(1) d2(1) by simp
          moreover have "\<forall>pkt \<in> set d1.
              \<exists>h sp. EvPacket h sp \<in> set (ev # evs) \<and> pkt = PcapPacket_factory h sp"
            using d1(2) EvPacket by auto
          moreover have "\<forall>pkt \<in> set d2.
              \<exists>h sp. EvPacket h sp \<in> set (ev # evs) \<and> pkt = PcapPacket_factory h sp"
            using d2(2) by (rule from_tail)
          ultimately have "calls (snd w') = calls (snd w) @ (d1 @ d2) \<and> (\<forall>pkt \<in> set (d1 @ d2).
              \<exists>h sp. EvPacket h sp \<in> set (ev # evs) \<and> pkt = PcapPacket_factory h sp)"
            by (simp add: ball_Un)
          then show ?thesis by blast
        qed
      next
        case False
        with Cons.prems nb EvPacket
        have "pcap_read lp sf fc cnt (pcap_callback_fn cb) n evs w = Some (r, rest, w')" by simp
        from Cons.IH [OF this] obtain ds where "calls (snd w') = calls (snd w) @ ds"
          "\<forall>pkt \<in> set ds. \<exists>h sp. EvPacket h sp \<in> set evs \<and> pkt = PcapPacket_factory h sp"
          by blast
        with from_tail [of ds evs ev] show ?thesis by blast
      qed
    next
      case EvTimeout
      show ?thesis
      proof (cases lp)
        case True
        with Cons.prems nb EvTimeout
        have "pcap_read lp sf fc cnt (pcap_callback_fn cb) n evs w = Some (r, rest, w')" by simp
        from Cons.IH [OF this] obtain ds where "calls (snd w') = calls (snd w) @ ds"
          "\<forall>pkt \<in> set ds. \<exists>h sp. EvPacket h sp \<in> set evs \<and> pkt = PcapPacket_factory h sp"
          by blast
        with from_tail [of ds evs ev] show ?thesis by blast
      next
        case False
        with Cons.prems nb EvTimeout have "w' = w" by auto
        then show ?thesis by simp
      qed
    next
      case (EvError m)
      with Cons.prems nb have "calls (snd w') = calls (snd w)"
        by (auto simp: upd_handle_def)
      then show ?thesis by simp
    qed
  qed
qed

lemma loop_common_calls:
  assumes "self_pcap (fst w) = Some p"
    and "loop_common d hst lt count cb w = Some (r, w')"
  shows "\<exists>ds. calls (snd w') = calls (snd w) @ ds \<and>
          (\<forall>pkt \<in> set ds. \<exists>h sp. EvPacket h sp \<in> set (pending p) \<and>
                                  pkt = PcapPacket_factory h sp)"
proof (cases "self_activated (fst w)")
  case False
  with assms have "w' = w" by (simp add: loop_common_def)
  then show ?thesis by simp
next
  case act: True
  show ?thesis
  proof (cases "as_c_int count")
    case (Inl e)
    with assms act have "w' = w" by (simp add: loop_common_def)
    then show ?thesis by simp
  next
    case (Inr c)
    show ?thesis
    proof (cases "activated p")
      case False
      with assms act Inr have "calls (snd w') = calls (snd w)"
        by (auto simp: loop_common_def pcap_dispatch_def pcap_loop_def pcap_run_def
            split: if_splits option.splits)
      then show ?thesis by simp
    next
      case True
      with assms act Inr obtain res rest w1 where
        r: "pcap_read (lt \<noteq> PCAP_LOOP_DISPATCH) (is_savefile p) (fcode p) c
              (pcap_callback_fn cb) 0 (pending p) w = Some (res, rest, w1)"
        and c: "calls (snd w') = calls (snd w1)"
        by (auto simp: loop_common_def pcap_dispatch_def pcap_loop_def pcap_run_def
            upd_handle_def split: if_splits option.splits)
      from pcap_read_calls [OF r] c show ?thesis by simp
    qed
  qed
qed

text \<open>
  C7 (amended). Every PacketRecord that a read returns, or that \<open>loop\<close> or
  \<open>dispatch\<close> gives the callback, is what \<open>PcapPacket_factory\<close> makes of a header
  and a buffer the session's source yields, and such a record's captured-length and
  wire-length are that header's \<open>caplen\<close> and \<open>len\<close>, unchanged. So captured-length
  is at most wire-length exactly when the engine's header says so, the two are equal
  exactly when the header's are, and the payload has captured-length bytes whenever the
  engine's buffer holds that many.
\<close>

theorem C7_record_lengths_are_the_headers:
  "(PcapPacket_caplen (PcapPacket_factory h sp) = uint (caplen h) \<and>
    PcapPacket_wirelen (PcapPacket_factory h sp) = uint (len h) \<and>
    (PcapPacket_caplen (PcapPacket_factory h sp) \<le> PcapPacket_wirelen (PcapPacket_factory h sp))
      = (caplen h \<le> len h) \<and>
    (PcapPacket_caplen (PcapPacket_factory h sp) = PcapPacket_wirelen (PcapPacket_factory h sp))
      = (caplen h = len h) \<and>
    (unat (caplen h) \<le> length sp \<longrightarrow>
       int (length (PcapPacket_data (PcapPacket_factory h sp)))
         = PcapPacket_caplen (PcapPacket_factory h sp))) \<and>
   (self_pcap self = Some p \<and> fst (Pcap_next d self) = Inr pkt \<longrightarrow>
      (\<exists>h' sp'. EvPacket h' sp' \<in> set (pending p) \<and> pkt = PcapPacket_factory h' sp')) \<and>
   (self_pcap (fst w) = Some q \<and> loop d hst count cb w = Some (r, w') \<longrightarrow>
      (\<exists>ds. calls (snd w') = calls (snd w) @ ds \<and>
            (\<forall>pkt \<in> set ds. \<exists>h' sp'. EvPacket h' sp' \<in> set (pending q) \<and>
                                     pkt = PcapPacket_factory h' sp'))) \<and>
   (self_pcap (fst w) = Some q \<and> dispatch d hst count cb w = Some (r, w') \<longrightarrow>
      (\<exists>ds. calls (snd w') = calls (snd w) @ ds \<and>
            (\<forall>pkt \<in> set ds. \<exists>h' sp'. EvPacket h' sp' \<in> set (pending q) \<and>
                                     pkt = PcapPacket_factory h' sp')))"
  using factory_lengths [of h sp] next_record_from_engine [of self p d pkt]
    loop_common_calls [of w q d hst PCAP_LOOP_LOOP count cb r w']
    loop_common_calls [of w q d hst PCAP_LOOP_DISPATCH count cb r w']
  unfolding loop_def dispatch_def by blast

theorem C7_record_lengths_witness:
  "(case PcapOffline_init (ex_host (ex_handle\<lparr>pending := [EvPacket (ex_hdr 1 2) [7, 8]]\<rparr>))
           ''in.pcap'' None of
      Inl e \<Rightarrow> False
    | Inr s \<Rightarrow>
        (case fst (Pcap_next ex_defs s) of
           Inl e \<Rightarrow> False
         | Inr pkt \<Rightarrow>
             pkt = PcapPacket_factory (ex_hdr 1 2) [7, 8] \<and>
             PcapPacket_caplen pkt = 1 \<and> PcapPacket_wirelen pkt = 2 \<and>
             int (length (PcapPacket_data pkt)) = 1) \<and>
        (case loop ex_defs (ex_host ex_handle) 0 (Some ex_picky) (s, ex_interp) of
           None \<Rightarrow> False
         | Some (r, w') \<Rightarrow>
             calls (snd w') = [PcapPacket_factory (ex_hdr 1 2) [7, 8]] \<and>
             (\<forall>pkt \<in> set (calls (snd w')).
                PcapPacket_caplen pkt = 1 \<and> PcapPacket_wirelen pkt = 2)))"
proof -
  let ?p = "ex_handle\<lparr>pending := [EvPacket (ex_hdr 1 2) [7, 8]]\<rparr>"
  let ?q = "?p\<lparr>activated := True, is_savefile := True, break_loop := False\<rparr>"
  let ?s = "\<lparr>self_pcap = Some ?q, self_dumper = None, self_filter = None,
             self_autosave = None, self_activated = True, self_filename = Some ''in.pcap''\<rparr>"
  let ?pkt = "PcapPacket_factory (ex_hdr 1 2) [7, 8]"
  obtain r0 s0 where n0: "Pcap_next ex_defs ?s = (r0, s0)" by (cases "Pcap_next ex_defs ?s")
  have "\<exists>pkt. r0 = Inr pkt"
    using n0 by (auto simp: Pcap_next_def pcap_next_ex_def ex_handle_def Let_def pcap_codes
        passes_def)
  then obtain pkt where n: "fst (Pcap_next ex_defs ?s) = Inr pkt" using n0 by auto
  obtain r w' where l: "loop ex_defs (ex_host ex_handle) 0 (Some ex_picky) (?s, ex_interp)
                          = Some (r, w')"
    and c: "length (calls (snd w')) = 1"
    by (simp add: loop_eval_defs ex_simps ex_picky_def PcapPacket_wirelen_def Let_def)
  have sp: "self_pcap ?s = Some ?q" by simp
  have len: "unat (caplen (ex_hdr 1 2)) \<le> length [7, 8 :: 8 word]" by (simp add: ex_hdr_def)
  note t = C7_record_lengths_are_the_headers
    [of "ex_hdr 1 2" "[7, 8]" ?s ?q ex_defs pkt "(?s, ex_interp)" ?q "ex_host ex_handle" 0
        "Some ex_picky" r w']
  from t sp n have "\<exists>h' sp'. EvPacket h' sp' \<in> set (pending ?q) \<and> pkt = PcapPacket_factory h' sp'"
    by blast
  then have pk: "pkt = ?pkt" by (simp add: ex_handle_def)
  from t l have "\<exists>ds. calls (snd w') = calls (snd (?s, ex_interp)) @ ds \<and>
      (\<forall>pkt \<in> set ds. \<exists>h' sp'. EvPacket h' sp' \<in> set (pending ?q) \<and>
                               pkt = PcapPacket_factory h' sp')"
    by simp
  then obtain ds where ds: "calls (snd w') = ds" "\<forall>pkt \<in> set ds. pkt = ?pkt"
    by (auto simp: ex_interp_def ex_handle_def)
  with c have cs: "calls (snd w') = [?pkt]"
    by (cases ds) auto
  from t len have g: "PcapPacket_caplen ?pkt = 1" "PcapPacket_wirelen ?pkt = 2"
    "int (length (PcapPacket_data ?pkt)) = 1"
    by (simp_all add: ex_hdr_def)
  show ?thesis
    unfolding ex_offline_init using n pk l cs g by simp
qed

section \<open>Address roles\<close>

lemma role_of_factory:
  "role_get r (PcapAddress_factory d pf ad) = parse_addr d pf (role_ptr r ad)"
  by (cases r) (simp_all add: PcapAddress_factory_def)

lemma interface_factory_addresses:
  "interface_addresses (PcapInterface_factory d pf ifc)
     = map (PcapAddress_factory d pf) (if_addresses ifc)"
  by (simp add: PcapInterface_factory_def Let_def)

text \<open>
  C8. When the engine's enumeration succeeds, \<open>findalldevs\<close> returns one interface per
  native interface, in order, and each carries one address per native address, in order,
  as \<open>PcapAddress_factory\<close> builds it; nothing past the engine's status can fail. In
  an address so built, for each of the four roles: a null pointer gives an absent role; a
  pointer whose family has no known size (\<open>get_sock_len\<close> negative, as for every
  family the build does not recognise), or whose numeric rendering fails, gives the family
  only; otherwise the role carries the family and the rendered string.
\<close>

theorem C8_address_role_tristate:
  "(role_ptr r ad = None \<longrightarrow> role_get r (PcapAddress_factory d pf ad) = None) \<and>
   (role_ptr r ad = Some a \<and> get_sock_len d pf a < 0 \<longrightarrow>
      role_get r (PcapAddress_factory d pf ad) = Some [''family'' \<mapsto> PyInt (sa_family a)]) \<and>
   (role_ptr r ad = Some a \<and> 0 \<le> get_sock_len d pf a \<and>
    fst (getnameinfo pf a (get_sock_len d pf a)) \<noteq> 0 \<longrightarrow>
      role_get r (PcapAddress_factory d pf ad) = Some [''family'' \<mapsto> PyInt (sa_family a)]) \<and>
   (role_ptr r ad = Some a \<and> 0 \<le> get_sock_len d pf a \<and>
    fst (getnameinfo pf a (get_sock_len d pf a)) = 0 \<longrightarrow>
      role_get r (PcapAddress_factory d pf ad) =
        Some [''family'' \<mapsto> PyInt (sa_family a),
              ''address'' \<mapsto> PyStr (snd (getnameinfo pf a (get_sock_len d pf a)))]) \<and>
   (sa_family a \<noteq> AF_INET pf \<and> sa_family a \<noteq> AF_INET6 pf \<and>
    (HAVE_AF_PACKET d \<longrightarrow> sa_family a \<noteq> AF_PACKET pf) \<and>
    (HAVE_AF_LINK d \<longrightarrow> sa_family a \<noteq> AF_LINK pf) \<longrightarrow> get_sock_len d pf a < 0) \<and>
   (0 \<le> res \<longrightarrow>
      (\<exists>ifs. findalldevs d pf (res, interfaces, eb) = Inr ifs \<and>
             map interface_name ifs = map if_name interfaces \<and>
             map interface_addresses ifs =
               map (\<lambda>ifc. map (PcapAddress_factory d pf) (if_addresses ifc)) interfaces))"
proof -
  have f: "0 \<le> res \<longrightarrow>
      findalldevs d pf (res, interfaces, eb) = Inr (map (PcapInterface_factory d pf) interfaces)"
    by (simp add: findalldevs_def)
  have n: "map interface_name (map (PcapInterface_factory d pf) interfaces)
             = map if_name interfaces"
    by (simp add: PcapInterface_factory_def Let_def)
  have g: "sa_family a \<noteq> AF_INET pf \<and> sa_family a \<noteq> AF_INET6 pf \<and>
    (HAVE_AF_PACKET d \<longrightarrow> sa_family a \<noteq> AF_PACKET pf) \<and>
    (HAVE_AF_LINK d \<longrightarrow> sa_family a \<noteq> AF_LINK pf) \<longrightarrow> get_sock_len d pf a < 0"
    by (simp add: get_sock_len_def)
  show ?thesis
    unfolding role_of_factory
    using f n g
    by (auto simp: parse_addr_def Let_def interface_factory_addresses split: prod.splits)
qed

theorem C8_address_role_witness:
  "(case findalldevs ex_defs ex_platform (0, ex_interfaces, []) of
      Inl e \<Rightarrow> False
    | Inr ifs \<Rightarrow>
        map interface_name ifs = [Some ''lo'', Some ''eth0''] \<and>
        map interface_addresses ifs = [[], [PcapAddress_factory ex_defs ex_platform ex_address]]) \<and>
   role_get Address (PcapAddress_factory ex_defs ex_platform ex_address)
     = Some [''family'' \<mapsto> PyInt 2, ''address'' \<mapsto> PyStr ''192.0.2.1''] \<and>
   role_get Netmask (PcapAddress_factory ex_defs ex_platform ex_address)
     = Some [''family'' \<mapsto> PyInt 99] \<and>
   role_get Broadcast (PcapAddress_factory ex_defs ex_platform ex_address) = None \<and>
   role_get Destination (PcapAddress_factory ex_defs ex_platform ex_address) = None \<and>
   role_get Address
     (PcapAddress_factory ex_defs ex_platform
        (ex_address\<lparr>addr := Some \<lparr>sa_family = 10, sa_data = []\<rparr>\<rparr>))
     = Some [''family'' \<mapsto> PyInt 10]"
proof -
  let ?F = "PcapAddress_factory ex_defs ex_platform"
  note t = C8_address_role_tristate [of _ _ ex_defs ex_platform _ 0 ex_interfaces "[]"]
  from t [of Address ex_address "\<lparr>sa_family = 2, sa_data = [192, 0, 2, 1]\<rparr>"]
  have a: "role_get Address (?F ex_address)
             = Some [''family'' \<mapsto> PyInt 2, ''address'' \<mapsto> PyStr ''192.0.2.1'']"
    by (simp add: ex_address_def ex_defs_def ex_platform_def get_sock_len_def)
  from t [of Netmask ex_address "\<lparr>sa_family = 99, sa_data = []\<rparr>"]
  have n: "role_get Netmask (?F ex_address) = Some [''family'' \<mapsto> PyInt 99]"
    by (simp add: ex_address_def ex_defs_def ex_platform_def get_sock_len_def)
  from t [of Broadcast ex_address]
  have b: "role_get Broadcast (?F ex_address) = None"
    by (simp add: ex_address_def)
  from t [of Destination ex_address]
  have d: "role_get Destination (?F ex_address) = None"
    by (simp add: ex_address_def)
  from t [of Address "ex_address\<lparr>addr := Some \<lparr>sa_family = 10, sa_data = []\<rparr>\<rparr>"
      "\<lparr>sa_family = 10, sa_data = []\<rparr>"]
  have r: "role_get Address (?F (ex_address\<lparr>addr := Some \<lparr>sa_family = 10, sa_data = []\<rparr>\<rparr>))
             = Some [''family'' \<mapsto> PyInt 10]"
    by (simp add: ex_defs_def ex_platform_def get_sock_len_def)
  from t [of Address ex_address "\<lparr>sa_family = 2, sa_data = []\<rparr>"]
  obtain ifs where f: "findalldevs ex_defs ex_platform (0, ex_interfaces, []) = Inr ifs"
    "map interface_name ifs = map if_name ex_interfaces"
    "map interface_addresses ifs = map (\<lambda>ifc. map ?F (if_addresses ifc)) ex_interfaces"
    by auto
  show ?thesis
    unfolding f(1) using f(2,3) a n b d r by (simp add: ex_interfaces_def)
qed

section \<open>Activation with a warning\<close>

text \<open>
  C2 (the code at the failing input). In the build with the current API, on a session
  whose handle is not yet activated and whose device reports a warning status:
  \<open>activate\<close> raises the warning, and the native handle is activated, but the session's
  activation state and its dump sink are left as they were and the autosave target stays
  unused. The claim says the state becomes true and the sink is attached.
\<close>

theorem C2_warning_leaves_session_inactive:
  assumes "\<not> PCAP_V0 d" and "self_pcap self = Some p" and "\<not> activated p"
    and "activate_op p = PCAP_WARNING_PROMISC_NOTSUP \<or> activate_op p = PCAP_WARNING"
  shows "fst (activate d hst self) =
           Inl (Exc (if activate_op p = PCAP_WARNING_PROMISC_NOTSUP
                     then PcapWarningPromiscNotSup else PcapWarning) [errbuf p]) \<and>
         self_activated (snd (activate d hst self)) = self_activated self \<and>
         self_dumper (snd (activate d hst self)) = self_dumper self \<and>
         self_autosave (snd (activate d hst self)) = self_autosave self \<and>
         self_pcap (snd (activate d hst self)) = Some (p\<lparr>activated := True\<rparr>)"
  using assms
  by (auto simp: activate_def pcap_activate_def pcap_geterr_def Let_def pcap_codes)

theorem C2_warning_witness:
  "(case PcapLive_init ex_defs
           (ex_host (ex_handle\<lparr>activate_op := PCAP_WARNING_PROMISC_NOTSUP,
                                errbuf := ''no promiscuous mode''\<rparr>))
           ''eth0'' 65535 True False 0 0 (Some ''out.pcap'') of
      Inl e \<Rightarrow> False
    | Inr s \<Rightarrow>
        \<not> self_activated s \<and>
        fst (activate ex_defs (ex_host ex_handle) s)
          = Inl (Exc PcapWarningPromiscNotSup [''no promiscuous mode'']) \<and>
        \<not> self_activated (snd (activate ex_defs (ex_host ex_handle) s)) \<and>
        self_autosave (snd (activate ex_defs (ex_host ex_handle) s)) = Some ''out.pcap'' \<and>
        self_dumper (snd (activate ex_defs (ex_host ex_handle) s)) = None \<and>
        map_option activated (self_pcap (snd (activate ex_defs (ex_host ex_handle) s)))
          = Some True \<and>
        fst (Pcap_next ex_defs (snd (activate ex_defs (ex_host ex_handle) s))) = Inl NotActivated)"
proof -
  let ?p = "ex_handle\<lparr>activate_op := PCAP_WARNING_PROMISC_NOTSUP,
                       errbuf := ''no promiscuous mode''\<rparr>"
  let ?q = "?p\<lparr>activated := False, is_savefile := False, break_loop := False,
               snapshot := 65535, opt_promisc := True, opt_timeout := 0, opt_buffer_size := 0\<rparr>"
  let ?S = "\<lparr>self_pcap = Some ?q, self_dumper = None, self_filter = None,
             self_autosave = Some ''out.pcap'', self_activated = False,
             self_snaplen = Some 65535, self_promisc = Some True, self_rfmon = None,
             self_timeout = Some 0, self_buffer_size = None, self_interface = Some ''eth0''\<rparr>"
  have s: "PcapLive_init ex_defs (ex_host ?p) ''eth0'' 65535 True False 0 0 (Some ''out.pcap'')
             = Inr ?S"
    by (rule ex_live_init) (simp_all add: ex_handle_def as_c_int_def)
  have a: "\<not> PCAP_V0 ex_defs" by (simp add: ex_defs_def)
  have b: "\<not> activated ?q" by simp
  have c: "activate_op ?q = PCAP_WARNING_PROMISC_NOTSUP \<or> activate_op ?q = PCAP_WARNING"
    by simp
  have sp: "self_pcap ?S = Some ?q" by simp
  from C2_warning_leaves_session_inactive [OF a sp b c, of "ex_host ex_handle"]
  have g: "fst (activate ex_defs (ex_host ex_handle) ?S)
             = Inl (Exc PcapWarningPromiscNotSup [''no promiscuous mode''])"
    "\<not> self_activated (snd (activate ex_defs (ex_host ex_handle) ?S))"
    "self_dumper (snd (activate ex_defs (ex_host ex_handle) ?S)) = None"
    "self_autosave (snd (activate ex_defs (ex_host ex_handle) ?S)) = Some ''out.pcap''"
    "self_pcap (snd (activate ex_defs (ex_host ex_handle) ?S)) = Some (?q\<lparr>activated := True\<rparr>)"
    by simp_all
  show ?thesis
    unfolding s using g by (simp add: Pcap_next_def)
qed

section \<open>Setters after activation\<close>

lemma attach_autosave_keeps:
  "self_pcap (snd (attach_autosave s)) = self_pcap s \<and>
   self_activated (snd (attach_autosave s)) = self_activated s"
  by (simp add: attach_autosave_def split: option.splits sum.splits)

lemma setters_on_active_handle:
  assumes "self_pcap s = Some p" and "activated p"
  shows "promisc_set d s b = (Inl Activated, s)"
    and "PCAP_V0 d \<or> as_c_int v = Inr c \<Longrightarrow> snaplen_set d s v = (Inl Activated, s)"
    and "PCAP_V0 d \<or> as_c_int v = Inr c \<Longrightarrow> timeout_set d s v = (Inl Activated, s)"
    and "\<not> PCAP_V0 d \<Longrightarrow> as_c_int v = Inr c \<Longrightarrow> buffer_size_set d s v = (Inl Activated, s)"
  using assms
  by (auto simp: snaplen_set_def promisc_set_def timeout_set_def buffer_size_set_def
      pcap_set_snaplen_def pcap_set_promisc_def pcap_set_timeout_def pcap_set_buffer_size_def
      Let_def self_pcap_same pcap_codes)

lemma setters_out_of_range:
  assumes "\<not> PCAP_V0 d" and "as_c_int v = Inl e"
  shows "snaplen_set d s v = (Inl e, s)"
    and "timeout_set d s v = (Inl e, s)"
    and "buffer_size_set d s v = (Inl e, s)"
  using assms by (simp_all add: snaplen_set_def timeout_set_def buffer_size_set_def)

lemma activate_v0_handle:
  assumes "PCAP_V0 d" and "\<not> self_activated self"
    and "self_activated (snd (activate d hst self))"
  shows "\<exists>p. self_pcap (snd (activate d hst self)) = Some p \<and> activated p"
proof (cases "open_live_args self")
  case (Inl e)
  with assms show ?thesis by (simp add: activate_def)
next
  case (Inr args)
  obtain ifc sl pr tm where args: "args = (ifc, sl, pr, tm)" by (cases args) auto
  show ?thesis
  proof (cases "open_live_op hst ifc")
    case (Inl e)
    with assms Inr args show ?thesis
      by (simp add: activate_def pcap_open_live_def)
  next
    case q: (Inr q)
    with assms Inr args show ?thesis
      by (simp add: activate_def pcap_open_live_def attach_autosave_keeps)
  qed
qed

lemma activate_v1_handle:
  assumes "\<not> PCAP_V0 d" and "\<not> self_activated self"
    and "self_activated (snd (activate d hst self))"
  shows "\<exists>p. self_pcap (snd (activate d hst self)) = Some p \<and> activated p"
proof (cases "self_pcap self")
  case None
  with assms show ?thesis by (simp add: activate_def)
next
  case (Some p)
  show ?thesis
  proof (cases "activated p")
    case True
    with assms Some show ?thesis
      by (simp add: activate_def pcap_activate_def pcap_codes)
  next
    case False
    show ?thesis
    proof (cases "activate_op p = 0")
      case True
      with assms Some False show ?thesis
        by (simp add: activate_def pcap_activate_def attach_autosave_keeps)
    next
      case nz: False
      have "\<not> self_activated (snd (activate d hst self))"
        using assms(1,2) Some False nz
        by (simp add: activate_def pcap_activate_def Let_def attach_autosave_keeps)
      with assms show ?thesis by simp
    qed
  qed
qed

lemma activate_gives_active_handle:
  assumes "\<not> self_activated self" and "self_activated (snd (activate d hst self))"
  shows "\<exists>p. self_pcap (snd (activate d hst self)) = Some p \<and> activated p"
  using assms activate_v0_handle [of d self hst] activate_v1_handle [of d self hst]
  by blast

text \<open>
  The \<open>rfmon\<close> setter on an activated session: when the engine's probe answers 0 the
  setter returns at once, with no error of any kind.
\<close>

lemma rfmon_setter_returns_when_probe_is_zero:
  "\<not> PCAP_V0 d \<Longrightarrow> self_pcap s = Some p \<Longrightarrow> can_set_rfmon_op p = 0 \<Longrightarrow>
   rfmon_set d s b = (Inr (), s)"
  by (simp add: rfmon_set_def pcap_can_set_rfmon_def)

text \<open>
  C3 (as the claim states it, refuted). A live session is constructed and activated, in
  the build with the current API; assigning \<open>snaplen\<close> the value \<open>2 ^ 31\<close> afterwards
  fails with \<open>OverflowError\<close>, where the claim has it fail with AlreadyActivated: the
  value is converted to the engine's \<open>int\<close> before the engine is asked anything.
\<close>

theorem C3_setter_overflow_not_activated:
  "(case PcapLive_init ex_defs (ex_host ex_handle) ''eth0'' 65535 False False 0 0 None of
      Inl e \<Rightarrow> False
    | Inr s \<Rightarrow>
        fst (activate ex_defs (ex_host ex_handle) s) = Inr () \<and>
        self_activated (snd (activate ex_defs (ex_host ex_handle) s)) \<and>
        fst (snaplen_set ex_defs (snd (activate ex_defs (ex_host ex_handle) s)) (2 ^ 31))
          = Inl (Exc OverflowError [''value too large to convert to int'']) \<and>
        fst (snaplen_set ex_defs (snd (activate ex_defs (ex_host ex_handle) s)) (2 ^ 31))
          \<noteq> Inl Activated)"
proof -
  have i: "can_set_rfmon_op ex_handle = 0" by (simp add: ex_handle_def)
  have c: "as_c_int 65535 = Inr 65535" "as_c_int 0 = Inr 0" by (simp_all add: as_c_int_def)
  show ?thesis
    unfolding ex_live_init [OF i c(1) c(2) c(2)]
    by (simp add: activate_def pcap_activate_def attach_autosave_def ex_handle_def
        snaplen_set_def ex_defs_def as_c_int_def Activated_def)
qed

text \<open>
  C3 (amended). On a live session that \<open>activate\<close> has taken, without raising, from not
  activated to activated: the setter of \<open>promisc\<close> fails with AlreadyActivated; the
  setters of \<open>snaplen\<close> and \<open>timeout\<close> fail with AlreadyActivated for every value in
  the range of the engine's \<open>int\<close> (in the old-API build for every value), and so does, in
  the build with the current API, the setter of \<open>buffer_size\<close>; in that build a value
  outside the range makes the three fail with \<open>OverflowError\<close> instead. In each case
  the session is left as it was. Nothing is said of the setter of \<open>rfmon\<close>.
\<close>

theorem C3_setters_after_activation:
  assumes "\<not> self_activated self" and "activate d hst self = (Inr (), self')"
    and "self_activated self'"
  shows "promisc_set d self' b = (Inl Activated, self') \<and>
         (PCAP_V0 d \<or> (- (2 ^ 31) \<le> v \<and> v < 2 ^ 31) \<longrightarrow>
            snaplen_set d self' v = (Inl Activated, self') \<and>
            timeout_set d self' v = (Inl Activated, self')) \<and>
         (\<not> PCAP_V0 d \<and> - (2 ^ 31) \<le> v \<and> v < 2 ^ 31 \<longrightarrow>
            buffer_size_set d self' v = (Inl Activated, self')) \<and>
         (\<not> PCAP_V0 d \<and> (v < - (2 ^ 31) \<or> 2 ^ 31 \<le> v) \<longrightarrow>
            (\<exists>m. snaplen_set d self' v = (Inl (Exc OverflowError m), self') \<and>
                 timeout_set d self' v = (Inl (Exc OverflowError m), self') \<and>
                 buffer_size_set d self' v = (Inl (Exc OverflowError m), self')))"
proof -
  have "self_activated (snd (activate d hst self))" using assms(2,3) by simp
  from activate_gives_active_handle [OF assms(1) this]
  obtain p where "self_pcap (snd (activate d hst self)) = Some p" and a: "activated p"
    by blast
  then have p: "self_pcap self' = Some p" using assms(2) by simp
  note st = setters_on_active_handle [OF p a]
  have r: "- (2 ^ 31) \<le> v \<and> v < 2 ^ 31 \<Longrightarrow> as_c_int v = Inr v"
    by (simp add: as_c_int_def)
  have o: "v < - (2 ^ 31) \<or> 2 ^ 31 \<le> v \<Longrightarrow>
           as_c_int v = Inl (Exc OverflowError [''value too large to convert to int''])"
    by (auto simp: as_c_int_def)
  show ?thesis
  proof (intro conjI impI)
    show "promisc_set d self' b = (Inl Activated, self')" by (rule st(1))
  next
    assume h: "PCAP_V0 d \<or> - (2 ^ 31) \<le> v \<and> v < 2 ^ 31"
    then have "PCAP_V0 d \<or> as_c_int v = Inr v" using r by blast
    then show "snaplen_set d self' v = (Inl Activated, self')" by (rule st(2))
  next
    assume h: "PCAP_V0 d \<or> - (2 ^ 31) \<le> v \<and> v < 2 ^ 31"
    then have "PCAP_V0 d \<or> as_c_int v = Inr v" using r by blast
    then show "timeout_set d self' v = (Inl Activated, self')" by (rule st(3))
  next
    assume h: "\<not> PCAP_V0 d \<and> - (2 ^ 31) \<le> v \<and> v < 2 ^ 31"
    then show "buffer_size_set d self' v = (Inl Activated, self')"
      using st(4) [of d v v] r by blast
  next
    assume h: "\<not> PCAP_V0 d \<and> (v < - (2 ^ 31) \<or> 2 ^ 31 \<le> v)"
    then have v1: "\<not> PCAP_V0 d"
      and e: "as_c_int v = Inl (Exc OverflowError [''value too large to convert to int''])"
      using o by blast+
    from setters_out_of_range [OF v1 e, of self']
    show "\<exists>m. snaplen_set d self' v = (Inl (Exc OverflowError m), self') \<and>
              timeout_set d self' v = (Inl (Exc OverflowError m), self') \<and>
              buffer_size_set d self' v = (Inl (Exc OverflowError m), self')"
      by blast
  qed
qed

theorem C3_setters_witness:
  "(case PcapLive_init ex_defs (ex_host ex_handle) ''eth0'' 65535 False False 0 0 None of
      Inl e \<Rightarrow> False
    | Inr s \<Rightarrow>
        (case activate ex_defs (ex_host ex_handle) s of
           (r, s') \<Rightarrow>
             \<not> self_activated s \<and> r = Inr () \<and> self_activated s' \<and> \<not> PCAP_V0 ex_defs \<and>
             snaplen_set ex_defs s' 96 = (Inl Activated, s') \<and>
             promisc_set ex_defs s' True = (Inl Activated, s') \<and>
             timeout_set ex_defs s' 96 = (Inl Activated, s') \<and>
             buffer_size_set ex_defs s' 96 = (Inl Activated, s') \<and>
             snaplen_get s' = Some 65535 \<and> promisc_get s' = Some False \<and>
             timeout_get s' = Some 0 \<and>
             (\<exists>m. snaplen_set ex_defs s' (2 ^ 31) = (Inl (Exc OverflowError m), s') \<and>
                  timeout_set ex_defs s' (2 ^ 31) = (Inl (Exc OverflowError m), s') \<and>
                  buffer_size_set ex_defs s' (2 ^ 31) = (Inl (Exc OverflowError m), s'))))"
proof -
  have i: "can_set_rfmon_op ex_handle = 0" by (simp add: ex_handle_def)
  have c: "as_c_int 65535 = Inr 65535" "as_c_int 0 = Inr 0" by (simp_all add: as_c_int_def)
  let ?q = "ex_handle\<lparr>activated := False, is_savefile := False, break_loop := False,
               snapshot := 65535, opt_promisc := False, opt_timeout := 0, opt_buffer_size := 0\<rparr>"
  let ?s = "\<lparr>self_pcap = Some ?q, self_dumper = None, self_filter = None, self_autosave = None,
      self_activated = False, self_snaplen = Some 65535, self_promisc = Some False, self_rfmon = None,
      self_timeout = Some 0, self_buffer_size = None, self_interface = Some ''eth0''\<rparr>"
  let ?s' = "\<lparr>self_pcap = Some (?q\<lparr>activated := True\<rparr>), self_dumper = None, self_filter = None, self_autosave = None,
      self_activated = True, self_snaplen = Some 65535, self_promisc = Some False, self_rfmon = None,
      self_timeout = Some 0, self_buffer_size = None, self_interface = Some ''eth0''\<rparr>"
  have a: "activate ex_defs (ex_host ex_handle) ?s = (Inr (), ?s')"
    by (rule ex_live_activate) (simp_all add: ex_handle_def)
  have n: "\<not> self_activated ?s" by simp
  have y: "self_activated ?s'" by simp
  have v: "\<not> PCAP_V0 ex_defs" by (simp add: ex_defs_def)
  from C3_setters_after_activation [OF n a y, of True 96] v
  have g: "snaplen_set ex_defs ?s' 96 = (Inl Activated, ?s')"
    "promisc_set ex_defs ?s' True = (Inl Activated, ?s')"
    "timeout_set ex_defs ?s' 96 = (Inl Activated, ?s')"
    "buffer_size_set ex_defs ?s' 96 = (Inl Activated, ?s')"
    by simp_all
  from C3_setters_after_activation [OF n a y, of True "2 ^ 31"] v
  have o: "\<exists>m. snaplen_set ex_defs ?s' (2 ^ 31) = (Inl (Exc OverflowError m), ?s') \<and>
              timeout_set ex_defs ?s' (2 ^ 31) = (Inl (Exc OverflowError m), ?s') \<and>
              buffer_size_set ex_defs ?s' (2 ^ 31) = (Inl (Exc OverflowError m), ?s')"
    by simp
  show ?thesis
    unfolding ex_live_init [OF i c(1) c(2) c(2)] using a g o v
    by (simp add: snaplen_get_def promisc_get_def timeout_get_def)
qed

section \<open>Reading at a timeout and at the end of input\<close>

lemma next_by_status:
  assumes "self_activated self" and "self_pcap self = Some p"
  shows "(fst (pcap_next_ex p) = 0 \<longrightarrow> fst (Pcap_next d self) = Inl (Exc PcapTimeout [])) \<and>
         (fst (pcap_next_ex p) = -2 \<longrightarrow> fst (Pcap_next d self) = Inl (Exc StopIteration []))"
  using assms by (auto simp: Pcap_next_def Let_def split: prod.splits)

lemma next_ex_eof:
  "activated p \<Longrightarrow> is_savefile p \<Longrightarrow> list_all (filtered_out (fcode p)) (pending p) \<Longrightarrow>
   fst (pcap_next_ex p) = -2"
proof -
  assume a: "activated p" "is_savefile p" "list_all (filtered_out (fcode p)) (pending p)"
  then have e: "dropWhile (filtered_out (fcode p)) (pending p) = []"
    by (simp add: list_all_iff)
  show ?thesis unfolding pcap_next_ex_def e using a by simp
qed

lemma next_ex_timeout:
  "activated p \<Longrightarrow> dropWhile (filtered_out (fcode p)) (pending p) = EvTimeout # rest \<Longrightarrow>
   fst (pcap_next_ex p) = 0"
  by (simp add: pcap_next_ex_def)

text \<open>
  C5. On an activated session, a read the engine ends with status 0 (the timeout expired
  with no data) raises \<open>PcapTimeout\<close>, and one it ends with status -2 raises
  \<open>StopIteration\<close>; neither returns a record. The engine gives -2 when a savefile has
  no packet left that passes the filter, and 0 when the next thing the source yields is
  a timeout.
\<close>

theorem C5_timeout_and_end_of_input:
  assumes "self_activated self" and "self_pcap self = Some p"
  shows "(fst (pcap_next_ex p) = 0 \<longrightarrow> fst (Pcap_next d self) = Inl (Exc PcapTimeout [])) \<and>
         (fst (pcap_next_ex p) = -2 \<longrightarrow> fst (Pcap_next d self) = Inl (Exc StopIteration [])) \<and>
         (activated p \<and> is_savefile p \<and> list_all (filtered_out (fcode p)) (pending p) \<longrightarrow>
            fst (Pcap_next d self) = Inl (Exc StopIteration [])) \<and>
         (activated p \<and> dropWhile (filtered_out (fcode p)) (pending p) = EvTimeout # rest \<longrightarrow>
            fst (Pcap_next d self) = Inl (Exc PcapTimeout []))"
  using next_by_status [OF assms, of d] next_ex_eof [of p] next_ex_timeout [of p rest]
  by blast

theorem C5_timeout_and_end_of_input_witness:
  "(case PcapOffline_init (ex_host ex_handle) ''in.pcap'' None of
      Inl e \<Rightarrow> False
    | Inr s \<Rightarrow> self_activated s \<and> fst (Pcap_next ex_defs s) = Inl (Exc StopIteration [])) \<and>
   (case PcapLive_init ex_defs (ex_host (ex_handle\<lparr>pending := [EvTimeout]\<rparr>))
           ''eth0'' 65535 False False 1000 0 None of
      Inl e \<Rightarrow> False
    | Inr s \<Rightarrow>
        (case activate ex_defs (ex_host ex_handle) s of
           (r, s') \<Rightarrow>
             r = Inr () \<and> self_activated s' \<and>
             fst (Pcap_next ex_defs s') = Inl (Exc PcapTimeout [])))"
proof -
  let ?p = "ex_handle\<lparr>activated := True, is_savefile := True, break_loop := False\<rparr>"
  let ?s = "\<lparr>self_pcap = Some ?p, self_dumper = None, self_filter = None,
             self_autosave = None, self_activated = True, self_filename = Some ''in.pcap''\<rparr>"
  have s1: "self_activated ?s" and s2: "self_pcap ?s = Some ?p" by simp_all
  from C5_timeout_and_end_of_input [OF s1 s2, of ex_defs]
  have eof: "fst (Pcap_next ex_defs ?s) = Inl (Exc StopIteration [])"
    by (simp add: ex_handle_def)
  let ?h = "ex_handle\<lparr>pending := [EvTimeout]\<rparr>"
  let ?q = "?h\<lparr>activated := False, is_savefile := False, break_loop := False,
               snapshot := 65535, opt_promisc := False, opt_timeout := 1000,
               opt_buffer_size := 0\<rparr>"
  let ?l = "\<lparr>self_pcap = Some (?q\<lparr>activated := True\<rparr>), self_dumper = None,
             self_filter = None, self_autosave = None, self_activated = True,
             self_snaplen = Some 65535, self_promisc = Some False, self_rfmon = None,
             self_timeout = Some 1000, self_buffer_size = None,
             self_interface = Some ''eth0''\<rparr>"
  have i: "can_set_rfmon_op ?h = 0" by (simp add: ex_handle_def)
  have c: "as_c_int 65535 = Inr 65535" "as_c_int 1000 = Inr 1000" "as_c_int 0 = Inr 0"
    by (simp_all add: as_c_int_def)
  have a: "activate ex_defs (ex_host ex_handle)
             \<lparr>self_pcap = Some ?q, self_dumper = None, self_filter = None,
              self_autosave = None, self_activated = False, self_snaplen = Some 65535,
              self_promisc = Some False, self_rfmon = None, self_timeout = Some 1000,
              self_buffer_size = None, self_interface = Some ''eth0''\<rparr> = (Inr (), ?l)"
    by (rule ex_live_activate) (simp_all add: ex_handle_def)
  have l1: "self_activated ?l" and l2: "self_pcap ?l = Some (?q\<lparr>activated := True\<rparr>)"
    by simp_all
  from C5_timeout_and_end_of_input [OF l1 l2, of ex_defs "[]"]
  have tmo: "fst (Pcap_next ex_defs ?l) = Inl (Exc PcapTimeout [])"
    by (simp add: ex_handle_def)
  show ?thesis
    unfolding ex_offline_init ex_live_init [OF i c] using eof tmo a by simp
qed

section \<open>Filter assignment that fails at the attach step\<close>

text \<open>
  C9. On an activated session, when the native attach step reports -1, assigning a
  filter raises \<open>PcapError\<close>, yet the session's \<open>filter\<close> property already reads the
  new filter object, while the native handle is as before (the program was never
  attached). This holds for a \<open>BpfProgram\<close> argument and for a string that compiles.
\<close>

theorem C9_filter_stored_before_attach:
  assumes "self_activated self" and "self_pcap self = Some p"
    and "fst (pcap_setfilter p (bpf b)) = -1"
  shows "fst (filter_set d self (ArgBpfProgram b)) = Inl (Exc PcapError [pcap_geterr p]) \<and>
         filter_get (snd (filter_set d self (ArgBpfProgram b))) = Some b \<and>
         self_pcap (snd (filter_set d self (ArgBpfProgram b))) = Some p \<and>
         (BpfProgram_init d self fs = Inr b \<longrightarrow>
            fst (filter_set d self (ArgString fs)) = Inl (Exc PcapError [pcap_geterr p]) \<and>
            filter_get (snd (filter_set d self (ArgString fs))) = Some b \<and>
            self_pcap (snd (filter_set d self (ArgString fs))) = Some p)"
  using assms
  by (auto simp: filter_set_def filter_get_def pcap_setfilter_def Let_def pcap_codes
      split: if_splits)

theorem C9_filter_stored_witness:
  "(case PcapOffline_init
           (ex_host (ex_handle\<lparr>setfilter_op := (\<lambda>f. -1), errbuf := ''bad filter''\<rparr>))
           ''in.pcap'' None of
      Inl e \<Rightarrow> False
    | Inr s \<Rightarrow>
        self_activated s \<and> filter_get s = None \<and>
        fst (filter_set ex_defs s (ArgString ''less 2'')) = Inl (Exc PcapError [''bad filter'']) \<and>
        map_option filterstring (filter_get (snd (filter_set ex_defs s (ArgString ''less 2''))))
          = Some (Some ''less 2'') \<and>
        map_option fcode (self_pcap (snd (filter_set ex_defs s (ArgString ''less 2''))))
          = Some None)"
proof -
  let ?p = "ex_handle\<lparr>setfilter_op := (\<lambda>f. -1), errbuf := ''bad filter'',
                       activated := True, is_savefile := True, break_loop := False\<rparr>"
  let ?s = "\<lparr>self_pcap = Some ?p, self_dumper = None, self_filter = None,
             self_autosave = None, self_activated = True, self_filename = Some ''in.pcap''\<rparr>"
  let ?b = "\<lparr>bpf = (\<lambda>h sp. len h \<le> 2), filterstring = Some ''less 2''\<rparr>"
  have s1: "self_activated ?s" and s2: "self_pcap ?s = Some ?p" by simp_all
  have f: "fst (pcap_setfilter ?p (bpf ?b)) = -1"
    by (simp add: pcap_setfilter_def)
  have c: "BpfProgram_init ex_defs ?s ''less 2'' = Inr ?b"
    by (simp add: BpfProgram_init_def pcap_compile_def ex_handle_def ex_defs_def pcap_codes)
  from C9_filter_stored_before_attach [OF s1 s2 f, of ex_defs "''less 2''"] c
  have g: "fst (filter_set ex_defs ?s (ArgString ''less 2'')) = Inl (Exc PcapError [pcap_geterr ?p])"
    "filter_get (snd (filter_set ex_defs ?s (ArgString ''less 2''))) = Some ?b"
    "self_pcap (snd (filter_set ex_defs ?s (ArgString ''less 2''))) = Some ?p"
    by blast+
  show ?thesis
    unfolding ex_offline_init using g
    by (simp add: filter_get_def pcap_geterr_def ex_handle_def)
qed

section \<open>The buffer size that is never stored\<close>

text \<open>
  C10. The \<open>buffer_size\<close> setter passes the value to the engine and stores nothing in
  the session: after an assignment that succeeds, \<open>buffer_size\<close> reads as it did before.
  A new session reads \<open>None\<close>, whatever size it was constructed with.
\<close>

theorem C10_buffer_size_never_stored:
  "fst (buffer_size_set d self v) = Inr () \<Longrightarrow>
   buffer_size_get d (snd (buffer_size_set d self v)) = buffer_size_get d self \<and>
   self_buffer_size (snd (buffer_size_set d self v)) = self_buffer_size self"
  by (auto simp: buffer_size_set_def buffer_size_get_def Let_def
      split: option.splits prod.splits if_splits sum.splits)

theorem C10_buffer_size_witness:
  "(case PcapLive_init ex_defs (ex_host ex_handle) ''eth0'' 65535 False False 0 4096 None of
      Inl e \<Rightarrow> False
    | Inr s \<Rightarrow>
        buffer_size_get ex_defs s = Inr None \<and>
        fst (buffer_size_set ex_defs s 8192) = Inr () \<and>
        buffer_size_get ex_defs (snd (buffer_size_set ex_defs s 8192)) = Inr None)"
proof -
  have i: "can_set_rfmon_op ex_handle = 0" by (simp add: ex_handle_def)
  have c: "as_c_int 65535 = Inr 65535" "as_c_int 0 = Inr 0" "as_c_int 4096 = Inr 4096"
    by (simp_all add: as_c_int_def)
  let ?q = "ex_handle\<lparr>activated := False, is_savefile := False, break_loop := False,
               snapshot := 65535, opt_promisc := False, opt_timeout := 0,
               opt_buffer_size := 4096\<rparr>"
  let ?s = "\<lparr>self_pcap = Some ?q, self_dumper = None, self_filter = None,
             self_autosave = None, self_activated = False, self_snaplen = Some 65535,
             self_promisc = Some False, self_rfmon = None, self_timeout = Some 0,
             self_buffer_size = None, self_interface = Some ''eth0''\<rparr>"
  have ok: "fst (buffer_size_set ex_defs ?s 8192) = Inr ()"
    by (simp add: buffer_size_set_def pcap_set_buffer_size_def ex_defs_def pcap_codes
        as_c_int_def)
  have g: "buffer_size_get ex_defs ?s = Inr None"
    by (simp add: buffer_size_get_def ex_defs_def)
  from C10_buffer_size_never_stored [OF ok] g
  have "buffer_size_get ex_defs (snd (buffer_size_set ex_defs ?s 8192)) = Inr None"
    by simp
  with ok g show ?thesis
    unfolding ex_live_init [OF i c] by simp
qed

section \<open>Activation never reverts\<close>

lemma dump_keeps_activated:
  "self_activated (dump_if_attached pkt s) = self_activated s"
  by (simp add: dump_if_attached_def split: option.splits)

lemma breakloop_keeps_activated:
  "self_activated (snd (breakloop s)) = self_activated s"
  by (simp add: breakloop_def split: option.splits)

lemma next_keeps_activated:
  "self_activated (snd (Pcap_next d s)) = self_activated s"
  by (simp add: Pcap_next_def Let_def dump_keeps_activated split: option.splits prod.splits)

lemma filter_set_keeps_activated:
  "self_activated (snd (filter_set d s arg)) = self_activated s"
  by (simp add: filter_set_def Let_def split: option.splits prod.splits sum.splits filter_arg.splits)

lemma breakloop_result_activated:
  "breakloop s = (r, s') \<Longrightarrow> self_activated s' = self_activated s"
  using breakloop_keeps_activated [of s] by simp

lemma callback_fn_keeps_activated:
  "self_activated (fst (pcap_callback_fn cb h sp w)) = self_activated (fst w)"
  by (cases w)
     (auto simp: pcap_callback_fn_def Let_def dump_keeps_activated breakloop_keeps_activated
       split: option.splits prod.splits sum.splits if_splits dest: breakloop_result_activated)

lemma upd_handle_keeps_activated:
  "self_activated (fst (upd_handle f w)) = self_activated (fst w)"
  by (simp add: upd_handle_def)

lemma break_exit_keeps_activated:
  "break_exit lp n evs w = (r, rest, w') \<Longrightarrow> self_activated (fst w') = self_activated (fst w)"
  by (auto simp: break_exit_def upd_handle_keeps_activated split: if_splits)

lemma pcap_read_keeps_activated:
  assumes cb: "\<And>h sp v. self_activated (fst (cb h sp v)) = self_activated (fst v)"
  shows "pcap_read lp sf fc cnt cb n evs w = Some (r, rest, w') \<Longrightarrow>
         self_activated (fst w') = self_activated (fst w)"
proof (induction evs arbitrary: n w)
  case Nil
  then show ?case
    by (auto simp: break_exit_keeps_activated split: if_splits)
next
  case (Cons ev evs)
  show ?case
  proof (cases "break_pending w")
    case True
    with Cons.prems show ?thesis
      by (cases ev) (auto simp: break_exit_keeps_activated)
  next
    case nb: False
    show ?thesis
    proof (cases ev)
      case (EvPacket h sp)
      show ?thesis
      proof (cases "passes fc h sp")
        case True
        show ?thesis
        proof (cases "0 < cnt \<and> cnt \<le> n + 1")
          case True
          with Cons.prems nb EvPacket \<open>passes fc h sp\<close> show ?thesis
            by (auto simp: cb)
        next
          case False
          with Cons.prems nb EvPacket \<open>passes fc h sp\<close>
          have "pcap_read lp sf fc cnt cb (n + 1) evs (cb h sp w) = Some (r, rest, w')"
            by auto
          from Cons.IH [OF this] show ?thesis by (simp add: cb)
        qed
      next
        case False
        with Cons.prems nb EvPacket
        have "pcap_read lp sf fc cnt cb n evs w = Some (r, rest, w')" by simp
        from Cons.IH [OF this] show ?thesis .
      qed
    next
      case EvTimeout
      show ?thesis
      proof (cases lp)
        case True
        with Cons.prems nb EvTimeout
        have "pcap_read lp sf fc cnt cb n evs w = Some (r, rest, w')" by simp
        from Cons.IH [OF this] show ?thesis .
      next
        case False
        with Cons.prems nb EvTimeout show ?thesis by auto
      qed
    next
      case (EvError m)
      with Cons.prems nb show ?thesis
        by (auto simp: upd_handle_keeps_activated)
    qed
  qed
qed

lemma pcap_run_keeps_activated:
  assumes cb: "\<And>h sp v. self_activated (fst (cb h sp v)) = self_activated (fst v)"
  shows "pcap_run lp p cnt cb w = Some (r, w') \<Longrightarrow>
         self_activated (fst w') = self_activated (fst w)"
  by (auto simp: pcap_run_def upd_handle_keeps_activated split: if_splits option.splits
      dest: pcap_read_keeps_activated [OF cb])

lemma loop_common_keeps_activated:
  "loop_common d hst lt count callback w = Some (r, w') \<Longrightarrow>
   self_activated (fst w') = self_activated (fst w)"
  by (auto simp: loop_common_def pcap_dispatch_def pcap_loop_def
      split: if_splits option.splits prod.splits sum.splits
      dest: pcap_run_keeps_activated [OF callback_fn_keeps_activated])

lemma pcap_step_keeps_activated:
  "pcap_step d hst op w = Some w' \<Longrightarrow> self_activated (fst w') = self_activated (fst w)"
  by (cases op)
     (auto simp: next_keeps_activated breakloop_keeps_activated filter_set_keeps_activated
       loop_def dispatch_def dest: loop_common_keeps_activated)


lemma live_setters_keep_activated:
  "self_activated (snd (snaplen_set d s v)) = self_activated s"
  "self_activated (snd (promisc_set d s b)) = self_activated s"
  "self_activated (snd (timeout_set d s v)) = self_activated s"
  "self_activated (snd (rfmon_set d s b)) = self_activated s"
  "self_activated (snd (buffer_size_set d s v)) = self_activated s"
  "self_activated (snd (blocking_set d s b)) = self_activated s"
  by (simp_all add: snaplen_set_def promisc_set_def timeout_set_def rfmon_set_def
      buffer_size_set_def blocking_set_def Let_def split: option.splits prod.splits sum.splits)

lemma activate_keeps_activated:
  assumes "self_activated s"
  shows "self_activated (snd (activate d hst s))"
proof (cases "PCAP_V0 d")
  case True
  with assms show ?thesis by (simp add: activate_def)
next
  case False
  show ?thesis
  proof (cases "self_pcap s")
    case None
    with assms False show ?thesis by (simp add: activate_def)
  next
    case (Some p)
    with assms False show ?thesis
      by (simp add: activate_def Let_def attach_autosave_keeps split: prod.splits)
  qed
qed

lemma live_step_keeps_activated:
  "self_activated (fst w) \<Longrightarrow> live_step d hst op w = Some w' \<Longrightarrow> self_activated (fst w')"
  by (cases op)
     (auto simp: live_setters_keep_activated activate_keeps_activated
       dest: pcap_step_keeps_activated)

lemma offline_step_keeps_activated:
  "self_activated (fst w) \<Longrightarrow> offline_step d hst op w = Some w' \<Longrightarrow> self_activated (fst w')"
  by (cases op) (auto dest: pcap_step_keeps_activated)

lemma run_ops_invariant:
  assumes step: "\<And>op v v'. P v \<Longrightarrow> step op v = Some v' \<Longrightarrow> P v'"
  shows "P w \<Longrightarrow> run_ops step ops w = Some w' \<Longrightarrow> P w'"
proof (induction ops arbitrary: w)
  case Nil
  then show ?case by simp
next
  case (Cons op ops)
  from Cons.prems(2) obtain v where v: "step op w = Some v" "run_ops step ops v = Some w'"
    by (auto split: option.splits)
  from step [OF Cons.prems(1) v(1)] have "P v" .
  from Cons.IH [OF this v(2)] show ?case .
qed

text \<open>
  C4. Once a session's activation state is true, no sequence of operations of the public
  interface (of a live session or of an offline one) that returns leaves it false.
\<close>

theorem C4_activation_is_monotonic:
  "(self_activated (fst w) \<and> run_ops (live_step d hst) ops w = Some w'
      \<longrightarrow> self_activated (fst w')) \<and>
   (self_activated (fst v) \<and> run_ops (offline_step d hst) ops' v = Some v'
      \<longrightarrow> self_activated (fst v'))"
proof (intro conjI impI)
  assume "self_activated (fst w) \<and> run_ops (live_step d hst) ops w = Some w'"
  then show "self_activated (fst w')"
    using run_ops_invariant [of "\<lambda>u. self_activated (fst u)" "live_step d hst" w ops w']
      live_step_keeps_activated [of _ d hst]
    by blast
next
  assume "self_activated (fst v) \<and> run_ops (offline_step d hst) ops' v = Some v'"
  then show "self_activated (fst v')"
    using run_ops_invariant [of "\<lambda>u. self_activated (fst u)" "offline_step d hst" v ops' v']
      offline_step_keeps_activated [of _ d hst]
    by blast
qed


theorem C4_activation_witness:
  "(case PcapLive_init ex_defs (ex_host ex_handle) ''eth0'' 65535 False False 0 0 None of
      Inl e \<Rightarrow> False
    | Inr s \<Rightarrow>
        \<not> self_activated s \<and>
        (case run_ops (live_step ex_defs (ex_host ex_handle))
                [OpActivate, OpSnaplenSet 96, OpActivate, LiveCommon OpBreakloop,
                 LiveCommon OpNext, OpRfmonSet True, OpBlockingSet False]
                (s, ex_interp) of
           None \<Rightarrow> False
         | Some w' \<Rightarrow> self_activated (fst w'))) \<and>
   (case PcapOffline_init
           (ex_host (ex_handle\<lparr>pending := [EvPacket (ex_hdr 1 1) [7], EvPacket (ex_hdr 2 2) [8, 9]]\<rparr>))
           ''in.pcap'' None of
      Inl e \<Rightarrow> False
    | Inr s \<Rightarrow>
        self_activated s \<and>
        (case run_ops (offline_step ex_defs (ex_host ex_handle))
                [OfflineCommon (OpLoop 0 (Some raise_first)), OfflineCommon OpNext,
                 OfflineCommon (OpFilterSet (ArgString ''less 2'')), OpSwappedGet]
                (s, ex_interp) of
           None \<Rightarrow> False
         | Some v' \<Rightarrow> self_activated (fst v')))"
proof -
  let ?hst = "ex_host ex_handle"
  have i: "can_set_rfmon_op ex_handle = 0" by (simp add: ex_handle_def)
  have c: "as_c_int 65535 = Inr 65535" "as_c_int 0 = Inr 0" by (simp_all add: as_c_int_def)
  let ?q = "ex_handle\<lparr>activated := False, is_savefile := False, break_loop := False,
               snapshot := 65535, opt_promisc := False, opt_timeout := 0, opt_buffer_size := 0\<rparr>"
  let ?s = "\<lparr>self_pcap = Some ?q, self_dumper = None, self_filter = None, self_autosave = None,
      self_activated = False, self_snaplen = Some 65535, self_promisc = Some False, self_rfmon = None,
      self_timeout = Some 0, self_buffer_size = None, self_interface = Some ''eth0''\<rparr>"
  let ?l = "\<lparr>self_pcap = Some (?q\<lparr>activated := True\<rparr>), self_dumper = None, self_filter = None, self_autosave = None,
      self_activated = True, self_snaplen = Some 65535, self_promisc = Some False, self_rfmon = None,
      self_timeout = Some 0, self_buffer_size = None, self_interface = Some ''eth0''\<rparr>"
  let ?ops = "[OpSnaplenSet 96, OpActivate, LiveCommon OpBreakloop,
                 LiveCommon OpNext, OpRfmonSet True, OpBlockingSet False]"
  have a: "activate ex_defs ?hst ?s = (Inr (), ?l)"
    by (rule ex_live_activate) (simp_all add: ex_handle_def)
  obtain w' where w': "run_ops (live_step ex_defs ?hst) ?ops (?l, ex_interp) = Some w'"
    by simp
  have la: "self_activated (fst (?l, ex_interp))" by simp
  from C4_activation_is_monotonic [of "(?l, ex_interp)" ex_defs ?hst ?ops w'] la w'
  have lw: "self_activated (fst w')" by blast
  let ?p = "ex_handle\<lparr>pending := [EvPacket (ex_hdr 1 1) [7], EvPacket (ex_hdr 2 2) [8, 9]]\<rparr>"
  let ?o = "\<lparr>self_pcap = Some (?p\<lparr>activated := True, is_savefile := True, break_loop := False\<rparr>),
          self_dumper = None, self_filter = None, self_autosave = None, self_activated = True,
          self_filename = Some ''in.pcap''\<rparr>"
  let ?fops = "[OfflineCommon (OpLoop 0 (Some raise_first)), OfflineCommon OpNext,
                 OfflineCommon (OpFilterSet (ArgString ''less 2'')), OpSwappedGet]"
  have "loop ex_defs ?hst 0 (Some raise_first) (?o, ex_interp) \<noteq> None"
    by (simp add: loop_eval_defs ex_simps raise_first_def Let_def)
  then obtain v' where v': "run_ops (offline_step ex_defs ?hst) ?fops (?o, ex_interp) = Some v'"
    by auto
  have oa: "self_activated (fst (?o, ex_interp))" by simp
  from C4_activation_is_monotonic [of _ ex_defs ?hst _ _ "(?o, ex_interp)" ?fops v'] oa v'
  have ov: "self_activated (fst v')" by blast
  show ?thesis
    unfolding ex_live_init [OF i c(1) c(2) c(2)] ex_offline_init
    using a w' lw v' ov by simp
qed


section \<open>The loop delivers the matching packets in order\<close>

lemma callback_fn_well_behaved:
  assumes "curexc i = None"
    and "raised (cb (calls i) (PcapPacket_factory h sp)) = None"
    and "\<not> called_breakloop (cb (calls i) (PcapPacket_factory h sp))"
  shows "pcap_callback_fn (Some cb) h sp (s, i) =
           (dump_if_attached (PcapPacket_factory h sp) s,
            i\<lparr>calls := calls i @ [PcapPacket_factory h sp]\<rparr>)"
  using assms by (simp add: pcap_callback_fn_def Let_def)

lemma pcap_read_delivers_all:
  "\<forall>(h, sp) \<in> set pkts. passes fc h sp \<longrightarrow>
      (\<forall>hist. raised (cb hist (PcapPacket_factory h sp)) = None \<and>
              \<not> called_breakloop (cb hist (PcapPacket_factory h sp))) \<Longrightarrow>
   curexc i = None \<Longrightarrow> \<not> break_pending (s, i) \<Longrightarrow>
   self_dumper s = Some dm \<Longrightarrow> cnt \<le> 0 \<Longrightarrow>
   \<exists>s' i'. pcap_read True True fc cnt (pcap_callback_fn (Some cb)) n
              (map (\<lambda>(h, sp). EvPacket h sp) pkts) (s, i) = Some (0, [], (s', i')) \<and>
     curexc i' = None \<and>
     calls i' = calls i @ map (\<lambda>(h, sp). PcapPacket_factory h sp)
                            (filter (\<lambda>(h, sp). passes fc h sp) pkts) \<and>
     map_option dumper_handle (self_dumper s') =
       Some (dumper_handle dm @ map (\<lambda>(h, sp). (h, take (unat (caplen h)) sp))
                                    (filter (\<lambda>(h, sp). passes fc h sp) pkts))"
proof (induction pkts arbitrary: n s i dm)
  case Nil
  then show ?case by simp
next
  case (Cons a pkts)
  obtain h sp where a: "a = (h, sp)" by (cases a)
  from Cons.prems(1)
  have wb: "\<forall>(h, sp) \<in> set pkts. passes fc h sp \<longrightarrow>
      (\<forall>hist. raised (cb hist (PcapPacket_factory h sp)) = None \<and>
              \<not> called_breakloop (cb hist (PcapPacket_factory h sp)))"
    by simp
  show ?case
  proof (cases "passes fc h sp")
    case False
    from Cons.IH [OF wb Cons.prems(2,3,4,5), of n] False a Cons.prems(3)
    show ?thesis by simp
  next
    case True
    let ?pkt = "PcapPacket_factory h sp"
    let ?s1 = "dump_if_attached ?pkt s"
    let ?i1 = "i\<lparr>calls := calls i @ [?pkt]\<rparr>"
    from Cons.prems(1) True a
    have ok: "raised (cb (calls i) ?pkt) = None" "\<not> called_breakloop (cb (calls i) ?pkt)"
      by simp_all
    have step: "pcap_callback_fn (Some cb) h sp (s, i) = (?s1, ?i1)"
      using callback_fn_well_behaved [of i cb h sp s] Cons.prems(2) ok by simp
    have c1: "curexc ?i1 = None" using Cons.prems(2) by simp
    have b1: "\<not> break_pending (?s1, ?i1)"
      using Cons.prems(3,4) by (simp add: break_pending_def dump_if_attached_def)
    have d1: "self_dumper ?s1 = Some (PcapDumper_dump dm ?pkt)"
      using Cons.prems(4) by (simp add: dump_if_attached_def)
    from Cons.IH [OF wb c1 b1 d1 Cons.prems(5), of "n + 1"]
    obtain s' i' where r:
      "pcap_read True True fc cnt (pcap_callback_fn (Some cb)) (n + 1)
         (map (\<lambda>(h, sp). EvPacket h sp) pkts) (?s1, ?i1) = Some (0, [], (s', i'))"
      "curexc i' = None"
      "calls i' = calls ?i1 @ map (\<lambda>(h, sp). PcapPacket_factory h sp)
                            (filter (\<lambda>(h, sp). passes fc h sp) pkts)"
      "map_option dumper_handle (self_dumper s') =
         Some (dumper_handle (PcapDumper_dump dm ?pkt) @
               map (\<lambda>(h, sp). (h, take (unat (caplen h)) sp))
                   (filter (\<lambda>(h, sp). passes fc h sp) pkts))"
      by blast
    have "pcap_read True True fc cnt (pcap_callback_fn (Some cb)) n
            (map (\<lambda>(h, sp). EvPacket h sp) (a # pkts)) (s, i) = Some (0, [], (s', i'))"
      using r(1) step True a Cons.prems(3,5) by simp
    moreover have "calls i' = calls i @ map (\<lambda>(h, sp). PcapPacket_factory h sp)
                            (filter (\<lambda>(h, sp). passes fc h sp) (a # pkts))"
      using r(3) True a by simp
    moreover have "map_option dumper_handle (self_dumper s') =
       Some (dumper_handle dm @ map (\<lambda>(h, sp). (h, take (unat (caplen h)) sp))
                                    (filter (\<lambda>(h, sp). passes fc h sp) (a # pkts)))"
      using r(4) True a
      by (simp add: PcapDumper_dump_def pcap_dump_def PcapPacket_data_def PcapPacket_factory_def)
    ultimately show ?thesis using r(2) by blast
  qed
qed


text \<open>
  C6 (the code at the failing input). An activated offline session whose savefile holds
  the packets \<open>pkts\<close> (N of them) and no break pending, a filter on the handle, a dump
  sink attached, and a callback that neither raises nor calls \<open>breakloop\<close> on the
  packets that pass the filter: the unbounded \<open>loop\<close> (a count of zero or less, within
  the engine's \<open>int\<close>) gives the callback exactly the packets that pass the filter (M of
  them, at most N), in the savefile's order, and hands the dump sink exactly those
  records, in the same order; then, nothing being pending, the process dies at
  \<open>err = <object>PyErr_Occurred()\<close>. The call never returns to its caller, and the
  sink is never closed. The claim has the loop complete.
\<close>

theorem C6_loop_dies_after_delivering:
  assumes "self_activated self" and "self_pcap self = Some p"
    and "activated p" and "is_savefile p" and "\<not> break_loop p"
    and "pending p = map (\<lambda>(h, sp). EvPacket h sp) pkts"
    and "self_dumper self = Some dm" and "curexc i = None"
    and "count \<le> 0" and "- (2 ^ 31) \<le> count"
    and "\<And>hist h sp. (h, sp) \<in> set pkts \<Longrightarrow> passes (fcode p) h sp \<Longrightarrow>
           raised (cb hist (PcapPacket_factory h sp)) = None \<and>
           \<not> called_breakloop (cb hist (PcapPacket_factory h sp))"
  shows "\<exists>self' i'.
           loop d hst count (Some cb) (self, i) = Some (Inl segfault, (self', i')) \<and>
           calls i' = calls i @ map (\<lambda>(h, sp). PcapPacket_factory h sp)
                                  (filter (\<lambda>(h, sp). passes (fcode p) h sp) pkts) \<and>
           map_option dumper_handle (self_dumper self') =
             Some (dumper_handle dm @ map (\<lambda>(h, sp). (h, take (unat (caplen h)) sp))
                                          (filter (\<lambda>(h, sp). passes (fcode p) h sp) pkts)) \<and>
           length (filter (\<lambda>(h, sp). passes (fcode p) h sp) pkts) \<le> length pkts"
proof -
  have wb: "\<forall>(h, sp) \<in> set pkts. passes (fcode p) h sp \<longrightarrow>
      (\<forall>hist. raised (cb hist (PcapPacket_factory h sp)) = None \<and>
              \<not> called_breakloop (cb hist (PcapPacket_factory h sp)))"
    using assms(11) by blast
  have nb: "\<not> break_pending (self, i)"
    using assms(2,5) by (simp add: break_pending_def)
  from pcap_read_delivers_all [OF wb assms(8) nb assms(7,9), of 0]
  obtain s' i' where r:
    "pcap_read True True (fcode p) count (pcap_callback_fn (Some cb)) 0
       (map (\<lambda>(h, sp). EvPacket h sp) pkts) (self, i) = Some (0, [], (s', i'))"
    "curexc i' = None"
    "calls i' = calls i @ map (\<lambda>(h, sp). PcapPacket_factory h sp)
                            (filter (\<lambda>(h, sp). passes (fcode p) h sp) pkts)"
    "map_option dumper_handle (self_dumper s') =
       Some (dumper_handle dm @ map (\<lambda>(h, sp). (h, take (unat (caplen h)) sp))
                                    (filter (\<lambda>(h, sp). passes (fcode p) h sp) pkts))"
    by blast
  let ?w = "upd_handle (\<lambda>q. q\<lparr>pending := []\<rparr>) (s', i')"
  have run: "pcap_loop p count (pcap_callback_fn (Some cb)) (self, i) = Some (0, ?w)"
    using r(1) assms(3,4,6) by (simp add: pcap_loop_def pcap_run_def)
  have cnt: "as_c_int count = Inr count"
    using assms(9,10) by (simp add: as_c_int_def)
  have "loop d hst count (Some cb) (self, i) = Some (Inl segfault, (fst ?w, snd ?w))"
    using run r(2) assms(1,2) cnt
    by (simp add: loop_def loop_common_def PCAP_LOOP_LOOP_def PCAP_LOOP_DISPATCH_def
        upd_handle_def)
  moreover have "calls (snd ?w) = calls i @ map (\<lambda>(h, sp). PcapPacket_factory h sp)
                            (filter (\<lambda>(h, sp). passes (fcode p) h sp) pkts)"
    using r(3) by (simp add: upd_handle_def)
  moreover have "map_option dumper_handle (self_dumper (fst ?w)) =
       Some (dumper_handle dm @ map (\<lambda>(h, sp). (h, take (unat (caplen h)) sp))
                                    (filter (\<lambda>(h, sp). passes (fcode p) h sp) pkts))"
    using r(4) by (simp add: upd_handle_def)
  ultimately show ?thesis by (intro exI conjI) simp_all
qed


theorem C6_loop_dies_witness:
  "(case PcapOffline_init
           (ex_host (ex_handle\<lparr>pending := [EvPacket (ex_hdr 1 1) [7],
                                           EvPacket (ex_hdr 3 3) [1, 2, 3],
                                           EvPacket (ex_hdr 2 2) [8, 9]]\<rparr>))
           ''in.pcap'' (Some ''out.pcap'') of
      Inl e \<Rightarrow> False
    | Inr s \<Rightarrow>
        (case filter_set ex_defs s (ArgString ''less 2'') of
           (r, s1) \<Rightarrow>
             r = Inr () \<and>
             (case loop ex_defs (ex_host ex_handle) 0 (Some ex_picky) (s1, ex_interp) of
                None \<Rightarrow> False
              | Some (res, w) \<Rightarrow>
                  res = Inl segfault \<and>
                  calls (snd w) = [PcapPacket_factory (ex_hdr 1 1) [7],
                                   PcapPacket_factory (ex_hdr 2 2) [8, 9]] \<and>
                  map_option dumper_handle (self_dumper (fst w))
                    = Some [(ex_hdr 1 1, [7]), (ex_hdr 2 2, [8, 9])])))"
proof -
  let ?evs = "[EvPacket (ex_hdr 1 1) [7], EvPacket (ex_hdr 3 3) [1, 2, 3],
               EvPacket (ex_hdr 2 2) [8, 9]]"
  let ?pkts = "[(ex_hdr 1 1, [7]), (ex_hdr 3 3, [1, 2, 3]), (ex_hdr 2 2, [8, 9 :: 8 word])]"
  let ?p0 = "ex_handle\<lparr>pending := ?evs, activated := True, is_savefile := True,
                        break_loop := False\<rparr>"
  let ?f = "\<lambda>(h :: pcap_pkthdr) (sp :: bytes). len h \<le> 2"
  let ?p1 = "?p0\<lparr>fcode := Some ?f\<rparr>"
  let ?dm = "\<lparr>dumper_handle = []\<rparr>"
  let ?s0 = "\<lparr>self_pcap = Some ?p0, self_dumper = Some ?dm, self_filter = None,
              self_autosave = Some ''out.pcap'', self_activated = True,
              self_filename = Some ''in.pcap''\<rparr>"
  let ?s1 = "\<lparr>self_pcap = Some ?p1, self_dumper = Some ?dm,
              self_filter = Some \<lparr>bpf = ?f, filterstring = Some ''less 2''\<rparr>,
              self_autosave = Some ''out.pcap'', self_activated = True,
              self_filename = Some ''in.pcap''\<rparr>"
  have init: "PcapOffline_init (ex_host (ex_handle\<lparr>pending := ?evs\<rparr>)) ''in.pcap''
                (Some ''out.pcap'') = Inr ?s0"
    by (simp add: PcapOffline_init_def PcapOffline_new_def pcap_open_offline_def ex_host_def
        attach_autosave_def PcapDumper_init_def pcap_dump_open_def ex_handle_def)
  have fs: "filter_set ex_defs ?s0 (ArgString ''less 2'') = (Inr (), ?s1)"
    by (simp add: filter_set_def BpfProgram_init_def pcap_compile_def pcap_setfilter_def
        ex_handle_def ex_defs_def pcap_codes)
  have h1: "self_activated ?s1" and h2: "self_pcap ?s1 = Some ?p1" and h3: "activated ?p1"
    and h4: "is_savefile ?p1" and h5: "\<not> break_loop ?p1"
    and h6: "pending ?p1 = map (\<lambda>(h, sp). EvPacket h sp) ?pkts"
    and h7: "self_dumper ?s1 = Some ?dm" and h8: "curexc ex_interp = None"
    and h9: "(0 :: int) \<le> 0" and h9': "- (2 ^ 31) \<le> (0 :: int)"
    by (simp_all add: ex_interp_def)
  have h10: "\<And>hist h sp. (h, sp) \<in> set ?pkts \<Longrightarrow> passes (fcode ?p1) h sp \<Longrightarrow>
           raised (ex_picky hist (PcapPacket_factory h sp)) = None \<and>
           \<not> called_breakloop (ex_picky hist (PcapPacket_factory h sp))"
    by (auto simp: passes_def ex_picky_def ex_hdr_def PcapPacket_wirelen_def
        PcapPacket_factory_def)
  from C6_loop_dies_after_delivering [of ?s1 ?p1 ?pkts ?dm ex_interp 0 ex_picky ex_defs "ex_host ex_handle",
      OF h1 h2 h3 h4 h5 h6 h7 h8 h9 h9' h10]
  obtain self' i' where r:
    "loop ex_defs (ex_host ex_handle) 0 (Some ex_picky) (?s1, ex_interp)
       = Some (Inl segfault, (self', i'))"
    "calls i' = calls ex_interp @ map (\<lambda>(h, sp). PcapPacket_factory h sp)
                  (filter (\<lambda>(h, sp). passes (fcode ?p1) h sp) ?pkts)"
    "map_option dumper_handle (self_dumper self') =
       Some (dumper_handle ?dm @ map (\<lambda>(h, sp). (h, take (unat (caplen h)) sp))
               (filter (\<lambda>(h, sp). passes (fcode ?p1) h sp) ?pkts))"
    by blast
  have c: "calls i' = [PcapPacket_factory (ex_hdr 1 1) [7], PcapPacket_factory (ex_hdr 2 2) [8, 9]]"
    using r(2) by (simp add: passes_def ex_hdr_def ex_interp_def)
  have dd: "map_option dumper_handle (self_dumper self')
              = Some [(ex_hdr 1 1, [7]), (ex_hdr 2 2, [8, 9])]"
    using r(3) by (simp add: passes_def ex_hdr_def)
  show ?thesis
    unfolding init using fs r(1) c dd by simp
qed


section \<open>A callback that fails inside the loop\<close>

text \<open>
  C1 (the code at the failing input). A savefile of three packets, no filter, a callback
  that raises on the first packet it is given. Both \<open>loop\<close> and \<open>dispatch\<close> give the
  second packet to the callback as well, after the failure: the bridge asks the engine to
  break when it finds the exception pending, and then goes on to call the callback. The
  third packet is not delivered. What the call raises is what \<open>raise sys.exc_info()\<close>
  makes of the exception pending at the end, which is the second one when the callback
  raises again.
\<close>

theorem C1_callback_called_again_after_failure:
  "(case PcapOffline_init
           (ex_host (ex_handle\<lparr>pending := [EvPacket (ex_hdr 1 1) [7],
                                           EvPacket (ex_hdr 2 2) [8, 9],
                                           EvPacket (ex_hdr 3 3) [1, 2, 3]]\<rparr>))
           ''in.pcap'' None of
      Inl e \<Rightarrow> None
    | Inr s \<Rightarrow>
        Some
          (map_option (\<lambda>(r, w). (r, calls (snd w)))
             (loop ex_defs hst 0 (Some raise_first) (s, ex_interp)),
           map_option (\<lambda>(r, w). (r, calls (snd w)))
             (dispatch ex_defs hst 0 (Some raise_first) (s, ex_interp)),
           map_option (\<lambda>(r, w). (r, calls (snd w)))
             (loop ex_defs hst 0 (Some raise_each) (s, ex_interp))))
   = Some
       (Some (Inl (exc_info_raise hst (Exc (UserError ''ValueError'') [''boom''])),
              [PcapPacket_factory (ex_hdr 1 1) [7], PcapPacket_factory (ex_hdr 2 2) [8, 9]]),
        Some (Inl (exc_info_raise hst (Exc (UserError ''ValueError'') [''boom''])),
              [PcapPacket_factory (ex_hdr 1 1) [7], PcapPacket_factory (ex_hdr 2 2) [8, 9]]),
        Some (Inl (exc_info_raise hst (Exc (UserError ''ValueError'') [''again''])),
              [PcapPacket_factory (ex_hdr 1 1) [7], PcapPacket_factory (ex_hdr 2 2) [8, 9]]))"
  unfolding ex_offline_init
  by (simp add: loop_eval_defs dispatch_def ex_handle_def ex_defs_def ex_interp_def ex_hdr_def
      raise_first_def raise_each_def Let_def)

end
